theory Spec2Isabelle
  imports Complex_Main "HOL-Library.AList" "HOL-Library.Sublist"
begin

section \<open>Python strings\<close>

text \<open>
  A Python \<open>str\<close> is a sequence of Unicode code points, so the text of a resume is a list
  of natural numbers: the en dash of \<open>Feb' 16 \<dots> Present\<close> is the single element 8211.
  \<open>str\<close> turns an ASCII literal into such a list.

  The character tables of the Python runtime are fixed here on ASCII (letters, digits, case)
  and on the Unicode white-space characters; every other code point is carried through as a
  caseless symbol that is neither a letter nor a digit. The model therefore describes the
  parser on texts whose letters and digits are ASCII, with arbitrary further punctuation.
\<close>

type_synonym pystr = "nat list"

definition str :: "string \<Rightarrow> pystr" where
  "str s = map of_char s"

definition is_upper :: "nat \<Rightarrow> bool" where
  "is_upper c = (65 \<le> c \<and> c \<le> 90)"

definition is_lower :: "nat \<Rightarrow> bool" where
  "is_lower c = (97 \<le> c \<and> c \<le> 122)"

definition is_digit :: "nat \<Rightarrow> bool" where
  "is_digit c = (48 \<le> c \<and> c \<le> 57)"

definition is_alpha :: "nat \<Rightarrow> bool" where
  "is_alpha c = (is_upper c \<or> is_lower c)"

definition is_word :: "nat \<Rightarrow> bool" where
  \<comment> \<open>the class \<open>\w\<close>\<close>
  "is_word c = (is_alpha c \<or> is_digit c \<or> c = 95)"

definition is_space :: "nat \<Rightarrow> bool" where
  \<comment> \<open>\<open>str.isspace\<close> of one character, also the class \<open>\s\<close>\<close>
  "is_space c = ((9 \<le> c \<and> c \<le> 13) \<or> (28 \<le> c \<and> c \<le> 32) \<or> c = 133 \<or> c = 160
     \<or> c = 5760 \<or> (8192 \<le> c \<and> c \<le> 8202) \<or> c = 8232 \<or> c = 8233 \<or> c = 8239
     \<or> c = 8287 \<or> c = 12288)"

definition lower_chr :: "nat \<Rightarrow> nat" where
  "lower_chr c = (if is_upper c then c + 32 else c)"

definition upper_chr :: "nat \<Rightarrow> nat" where
  "upper_chr c = (if is_lower c then c - 32 else c)"

definition py_lower :: "pystr \<Rightarrow> pystr" where
  "py_lower s = map lower_chr s"

definition py_upper :: "pystr \<Rightarrow> pystr" where
  "py_upper s = map upper_chr s"

definition py_strip :: "pystr \<Rightarrow> pystr" where
  "py_strip s = rev (dropWhile is_space (rev (dropWhile is_space s)))"

fun startswith :: "pystr \<Rightarrow> pystr \<Rightarrow> bool" where
  "startswith s [] = True"
| "startswith [] (p # ps) = False"
| "startswith (c # cs) (p # ps) = (c = p \<and> startswith cs ps)"

definition endswith :: "pystr \<Rightarrow> pystr \<Rightarrow> bool" where
  "endswith s p = startswith (rev s) (rev p)"

fun contains :: "pystr \<Rightarrow> pystr \<Rightarrow> bool" where
  \<comment> \<open>\<open>contains sub s\<close> is Python's \<open>sub in s\<close>\<close>
  "contains sub [] = (sub = [])"
| "contains sub (c # cs) = (startswith (c # cs) sub \<or> contains sub cs)"

definition any_in :: "pystr list \<Rightarrow> pystr \<Rightarrow> bool" where
  \<comment> \<open>\<open>any(k in s for k in ks)\<close>\<close>
  "any_in ks s = list_ex (\<lambda>k. contains k s) ks"

definition py_capitalize :: "pystr \<Rightarrow> pystr" where
  "py_capitalize s = (case s of [] \<Rightarrow> [] | c # cs \<Rightarrow> upper_chr c # py_lower cs)"

definition py_int :: "pystr \<Rightarrow> nat" where
  \<comment> \<open>\<open>int(s)\<close> for a string of decimal digits\<close>
  "py_int s = foldl (\<lambda>n c. 10 * n + (c - 48)) 0 s"

fun py_join :: "pystr \<Rightarrow> pystr list \<Rightarrow> pystr" where
  "py_join sep [] = []"
| "py_join sep [x] = x"
| "py_join sep (x # y # ys) = x @ sep @ py_join sep (y # ys)"

fun split_chr :: "nat \<Rightarrow> pystr \<Rightarrow> pystr list" where
  \<comment> \<open>\<open>s.split(d)\<close> for a separator \<open>d\<close> of one character\<close>
  "split_chr d [] = [[]]"
| "split_chr d (c # cs) =
     (if c = d then [] # split_chr d cs
      else (case split_chr d cs of [] \<Rightarrow> [[c]] | x # xs \<Rightarrow> (c # x) # xs))"

definition split_lines :: "pystr \<Rightarrow> pystr list" where
  \<comment> \<open>\<open>text.split('\n')\<close>\<close>
  "split_lines text = split_chr 10 text"

definition slice :: "'a list \<Rightarrow> nat \<Rightarrow> nat \<Rightarrow> 'a list" where
  \<comment> \<open>\<open>xs[a:b]\<close> for indices that are not negative\<close>
  "slice xs a b = take (b - a) (drop a xs)"

datatype 'a loop = Break 'a | Continue 'a

fun words_from :: "pystr \<Rightarrow> pystr \<Rightarrow> pystr list" where
  "words_from acc [] = (if acc = [] then [] else [rev acc])"
| "words_from acc (c # cs) =
     (if is_space c then (if acc = [] then words_from [] cs else rev acc # words_from [] cs)
      else words_from (c # acc) cs)"

definition py_split_ws :: "pystr \<Rightarrow> pystr list" where
  \<comment> \<open>\<open>s.split()\<close>: the words between runs of white space\<close>
  "py_split_ws s = words_from [] s"

text \<open>
  \<open>s.split(sep, maxsplit)\<close> and \<open>s.replace(old, new)\<close> for a non-empty \<open>sep\<close> and \<open>old\<close>,
  as every call of the parser has them. After an occurrence the scan skips the rest of it;
  \<open>limit\<close> counts the splits that are still allowed.
\<close>

fun split_from :: "pystr \<Rightarrow> nat \<Rightarrow> nat \<Rightarrow> pystr \<Rightarrow> pystr \<Rightarrow> pystr list" where
  "split_from sep limit skip acc [] = [rev acc]"
| "split_from sep limit skip acc (c # cs) =
     (if skip > 0 then split_from sep limit (skip - 1) acc cs
      else if limit > 0 \<and> startswith (c # cs) sep
        then rev acc # split_from sep (limit - 1) (length sep - 1) [] cs
      else split_from sep limit 0 (c # acc) cs)"

definition py_split :: "pystr \<Rightarrow> pystr \<Rightarrow> pystr list" where
  "py_split sep s = split_from sep (Suc (length s)) 0 [] s"

definition py_split_max :: "pystr \<Rightarrow> nat \<Rightarrow> pystr \<Rightarrow> pystr list" where
  "py_split_max sep maxsplit s = split_from sep maxsplit 0 [] s"

definition py_rsplit_max :: "pystr \<Rightarrow> nat \<Rightarrow> pystr \<Rightarrow> pystr list" where
  \<comment> \<open>\<open>s.rsplit(sep, maxsplit)\<close>: the same from the right\<close>
  "py_rsplit_max sep maxsplit s = rev (map rev (split_from (rev sep) maxsplit 0 [] (rev s)))"

fun replace_from :: "pystr \<Rightarrow> pystr \<Rightarrow> nat \<Rightarrow> pystr \<Rightarrow> pystr" where
  "replace_from old new skip [] = []"
| "replace_from old new skip (c # cs) =
     (if skip > 0 then replace_from old new (skip - 1) cs
      else if startswith (c # cs) old then new @ replace_from old new (length old - 1) cs
      else c # replace_from old new 0 cs)"

definition py_replace :: "pystr \<Rightarrow> pystr \<Rightarrow> pystr \<Rightarrow> pystr" where
  "py_replace old new s = replace_from old new 0 s"

definition py_isupper :: "pystr \<Rightarrow> bool" where
  \<comment> \<open>\<open>s.isupper()\<close>: some cased character, and no lower-case one\<close>
  "py_isupper s = (list_ex is_upper s \<and> \<not> list_ex is_lower s)"

definition startswith_any :: "pystr \<Rightarrow> pystr list \<Rightarrow> bool" where
  \<comment> \<open>\<open>s.startswith((p1, p2, ...))\<close>\<close>
  "startswith_any s ps = list_ex (\<lambda>p. startswith s p) ps"

definition basename :: "pystr \<Rightarrow> pystr" where
  \<comment> \<open>\<open>os.path.basename\<close>: what follows the last slash\<close>
  "basename path = last (split_chr 47 path)"

section \<open>Regular expressions\<close>

text \<open>
  The patterns of the parser are interpreted by a backtracking matcher with the search order
  of Python's \<open>re\<close> module. \<open>rall r s\<close> lists every way in which \<open>r\<close> matches from the
  state \<open>s\<close>, in the order in which a backtracking search meets them: alternatives from
  left to right, for a greedy repetition the longer matches before the shorter ones, for a
  lazy one the other way round. The match that \<open>re\<close> reports is the first of the list. An
  iteration of a repetition must consume input. A match state holds the position, the
  character before it (for \<open>\b\<close>), the remaining input and the text of the groups closed so
  far, the most recent first.
\<close>

datatype regex =
    Chr "nat \<Rightarrow> bool"
  | Eps
  | Seq regex regex
  | Alt regex regex
  | Star bool regex
  | Grp nat regex
  | Look regex
  | Bol
  | Eol
  | Eot
  | Wordb

datatype mstate =
  MState (ms_pos: nat) (ms_prev: "nat option") (ms_rest: pystr) (ms_caps: "(nat \<times> pystr) list")

definition at_word_boundary :: "mstate \<Rightarrow> bool" where
  "at_word_boundary s =
     ((case ms_prev s of None \<Rightarrow> False | Some c \<Rightarrow> is_word c)
      \<noteq> (case ms_rest s of [] \<Rightarrow> False | c # cs \<Rightarrow> is_word c))"

function (sequential) rall :: "regex \<Rightarrow> mstate \<Rightarrow> mstate list" where
  "rall (Chr p) s =
     (case ms_rest s of
        [] \<Rightarrow> []
      | c # cs \<Rightarrow> if p c then [MState (Suc (ms_pos s)) (Some c) cs (ms_caps s)] else [])"
| "rall Eps s = [s]"
| "rall (Seq a b) s = concat (map (rall b) (rall a s))"
| "rall (Alt a b) s = rall a s @ rall b s"
| "rall (Star greedy a) s =
     (let more = concat (map (\<lambda>s'. if length (ms_rest s') < length (ms_rest s)
                                    then rall (Star greedy a) s' else []) (rall a s))
      in if greedy then more @ [s] else s # more)"
| "rall (Grp n a) s =
     map (\<lambda>s'. MState (ms_pos s') (ms_prev s') (ms_rest s')
                  ((n, take (ms_pos s' - ms_pos s) (ms_rest s)) # ms_caps s')) (rall a s)"
| "rall (Look a) s =
     (case rall a s of
        [] \<Rightarrow> []
      | s' # _ \<Rightarrow> [MState (ms_pos s) (ms_prev s) (ms_rest s) (ms_caps s')])"
| "rall Bol s = (if ms_pos s = 0 then [s] else [])"
| "rall Eol s = (if ms_rest s = [] \<or> ms_rest s = [10] then [s] else [])"
| "rall Eot s = (if ms_rest s = [] then [s] else [])"
| "rall Wordb s = (if at_word_boundary s then [s] else [])"
  by pat_completeness auto
termination
  by (relation "measures [\<lambda>(r, s). size r, \<lambda>(r, s). length (ms_rest s)]") auto

text \<open>Derived forms: literals, \<open>+\<close>, \<open>?\<close>, \<open>{n}\<close>, \<open>{m,n}\<close>, alternatives of a list.\<close>

fun lit :: "pystr \<Rightarrow> regex" where
  "lit [] = Eps"
| "lit (c # cs) = Seq (Chr (\<lambda>x. x = c)) (lit cs)"

fun lit_i :: "pystr \<Rightarrow> regex" where
  \<comment> \<open>a literal under \<open>re.IGNORECASE\<close>\<close>
  "lit_i [] = Eps"
| "lit_i (c # cs) = Seq (Chr (\<lambda>x. lower_chr x = lower_chr c)) (lit_i cs)"

fun alts :: "regex list \<Rightarrow> regex" where
  "alts [] = Chr (\<lambda>x. False)"
| "alts [r] = r"
| "alts (r # rs) = Alt r (alts rs)"

definition plus :: "regex \<Rightarrow> regex" where
  "plus r = Seq r (Star True r)"

definition opt :: "regex \<Rightarrow> regex" where
  "opt r = Alt r Eps"

fun times :: "nat \<Rightarrow> regex \<Rightarrow> regex" where
  \<comment> \<open>\<open>r{n}\<close>\<close>
  "times 0 r = Eps"
| "times (Suc n) r = Seq r (times n r)"

fun upto :: "nat \<Rightarrow> regex \<Rightarrow> regex" where
  \<comment> \<open>\<open>r{0,n}\<close>, greedy\<close>
  "upto 0 r = Eps"
| "upto (Suc n) r = Alt (Seq r (upto n r)) Eps"

definition between :: "nat \<Rightarrow> nat \<Rightarrow> regex \<Rightarrow> regex" where
  \<comment> \<open>\<open>r{m,n}\<close>\<close>
  "between m n r = Seq (times m r) (upto (n - m) r)"

fun seqs :: "regex list \<Rightarrow> regex" where
  "seqs [] = Eps"
| "seqs [r] = r"
| "seqs (r # rs) = Seq r (seqs rs)"

definition star :: "regex \<Rightarrow> regex" where
  "star r = Star True r"

definition lazy_star :: "regex \<Rightarrow> regex" where
  \<comment> \<open>\<open>r*?\<close>\<close>
  "lazy_star r = Star False r"

definition one_of :: "pystr \<Rightarrow> regex" where
  \<comment> \<open>a character of the given ones\<close>
  "one_of s = Chr (\<lambda>c. c \<in> set s)"

definition none_of :: "pystr \<Rightarrow> regex" where
  \<comment> \<open>a character other than the given ones\<close>
  "none_of s = Chr (\<lambda>c. c \<notin> set s)"

definition dot :: regex where
  \<comment> \<open>\<open>.\<close>: any character but the newline\<close>
  "dot = Chr (\<lambda>c. c \<noteq> 10)"

definition dot_all :: regex where
  \<comment> \<open>\<open>.\<close> under \<open>re.DOTALL\<close>\<close>
  "dot_all = Chr (\<lambda>c. True)"

definition spc :: regex where
  "spc = Chr is_space"

definition dgt :: regex where
  "dgt = Chr is_digit"

definition wrd :: regex where
  "wrd = Chr is_word"

definition upr :: regex where
  \<comment> \<open>\<open>[A-Z]\<close>\<close>
  "upr = Chr is_upper"

definition lwr :: regex where
  \<comment> \<open>\<open>[a-z]\<close>\<close>
  "lwr = Chr is_lower"

definition ltr :: regex where
  \<comment> \<open>\<open>[a-zA-Z]\<close>, also \<open>[A-Z]\<close> and \<open>[a-z]\<close> under \<open>re.IGNORECASE\<close>\<close>
  "ltr = Chr is_alpha"

text \<open>
  A match object is the list of its groups; group 0 is the whole match.
  \<open>rx_scan\<close> is the scan of \<open>re.search\<close> over the start positions from left to right,
  \<open>rx_all\<close> the successive non-overlapping matches of \<open>re.findall\<close> and \<open>re.finditer\<close>.
\<close>

type_synonym rx_match = "(nat \<times> pystr) list"

definition group :: "rx_match \<Rightarrow> nat \<Rightarrow> pystr option" where
  "group m n = map_of m n"

definition group_str :: "rx_match \<Rightarrow> nat \<Rightarrow> pystr" where
  \<comment> \<open>a group that takes part in every match of its pattern\<close>
  "group_str m n = (case map_of m n of None \<Rightarrow> [] | Some g \<Rightarrow> g)"

definition rx_here :: "regex \<Rightarrow> nat \<Rightarrow> nat option \<Rightarrow> pystr \<Rightarrow> mstate option" where
  "rx_here r p prev rest =
     (case rall (Grp 0 r) (MState p prev rest []) of [] \<Rightarrow> None | m # _ \<Rightarrow> Some m)"

fun rx_scan :: "regex \<Rightarrow> nat \<Rightarrow> nat option \<Rightarrow> pystr \<Rightarrow> mstate option" where
  "rx_scan r p prev [] = rx_here r p prev []"
| "rx_scan r p prev (c # cs) =
     (case rx_here r p prev (c # cs) of
        Some m \<Rightarrow> Some m
      | None \<Rightarrow> rx_scan r (Suc p) (Some c) cs)"

definition re_match :: "regex \<Rightarrow> pystr \<Rightarrow> rx_match option" where
  "re_match r text = map_option ms_caps (rx_here r 0 None text)"

definition re_search :: "regex \<Rightarrow> pystr \<Rightarrow> rx_match option" where
  "re_search r text = map_option ms_caps (rx_scan r 0 None text)"

function rx_all :: "regex \<Rightarrow> nat \<Rightarrow> nat option \<Rightarrow> pystr \<Rightarrow> rx_match list" where
  "rx_all r p prev rest =
     (case rx_scan r p prev rest of
        None \<Rightarrow> []
      | Some m \<Rightarrow>
          ms_caps m #
          (if length (ms_rest m) < length rest
           then rx_all r (ms_pos m) (ms_prev m) (ms_rest m)
           else (case ms_rest m of
                   [] \<Rightarrow> []
                 | c # cs \<Rightarrow>
                     if length cs < length rest then rx_all r (Suc (ms_pos m)) (Some c) cs
                     else [])))"
  by pat_completeness auto
termination
  by (relation "measure (\<lambda>(r, p, prev, rest). length rest)") auto

definition re_findall :: "regex \<Rightarrow> pystr \<Rightarrow> rx_match list" where
  "re_findall r text = rx_all r 0 None text"

section \<open>The records of a parse result\<close>

record education_entry =
  school_name :: pystr
  degree_name :: pystr
  degree_type :: pystr
  edu_dates :: pystr
  edu_start_date :: pystr
  edu_end_date :: pystr
  gpa :: pystr

record position =
  job_title :: pystr
  company :: pystr
  location :: pystr
  start_date :: pystr
  end_date :: pystr
  dates :: pystr
  description :: "pystr list"

text \<open>
  A skill candidate is a dictionary with the keys \<open>name\<close>, \<open>source\<close> and
  \<open>confidence\<close>; the key \<open>category\<close> is present only for skills found through the
  skills database. Confidences are the decimal literals of the source, read as real numbers.
\<close>

record skill =
  name :: pystr
  category :: "pystr option"
  source :: pystr
  confidence :: real

record skill_out =
  so_name :: pystr
  so_category :: pystr
  months_experience :: nat
  so_confidence :: real
  so_source :: pystr
  last_used :: pystr

record candidate_name =
  formatted_name :: pystr
  given_name :: pystr
  family_name :: pystr

record location_info =
  municipality :: pystr
  region :: pystr
  country_code :: pystr

record contact_info =
  candidate_name :: candidate_name
  email_addresses :: "pystr list"
  telephones :: "pystr list"
  contact_location :: location_info

section \<open>Date normalisation\<close>

definition full_month_names :: "pystr list" where
  "full_month_names =
     [str ''January'', str ''February'', str ''March'', str ''April'', str ''May'',
      str ''June'', str ''July'', str ''August'', str ''September'', str ''October'',
      str ''November'', str ''December'']"

definition full_month_map :: "(pystr \<times> pystr) list" where
  "full_month_map =
     [(str ''January'', str ''01''), (str ''February'', str ''02''), (str ''March'', str ''03''),
      (str ''April'', str ''04''), (str ''May'', str ''05''), (str ''June'', str ''06''),
      (str ''July'', str ''07''), (str ''August'', str ''08''), (str ''September'', str ''09''),
      (str ''October'', str ''10''), (str ''November'', str ''11''), (str ''December'', str ''12'')]"

definition abbr_month_map :: "(pystr \<times> pystr) list" where
  "abbr_month_map =
     [(str ''Jan'', str ''01''), (str ''Feb'', str ''02''), (str ''Mar'', str ''03''),
      (str ''Apr'', str ''04''), (str ''May'', str ''05''), (str ''Jun'', str ''06''),
      (str ''Jul'', str ''07''), (str ''Aug'', str ''08''), (str ''Sep'', str ''09''),
      (str ''Oct'', str ''10''), (str ''Nov'', str ''11''), (str ''Dec'', str ''12'')]"

definition dict_get :: "(pystr \<times> pystr) list \<Rightarrow> pystr \<Rightarrow> pystr \<Rightarrow> pystr" where
  \<comment> \<open>\<open>d.get(k, default)\<close>\<close>
  "dict_get d k dflt = (case map_of d k of None \<Rightarrow> dflt | Some v \<Rightarrow> v)"

definition full_month_year_re :: regex where
  \<comment> \<open>\<open>(January|...|December)\s+(\d{4})\<close> with \<open>re.IGNORECASE\<close>\<close>
  "full_month_year_re =
     Seq (Grp 1 (alts (map lit_i full_month_names)))
       (Seq (plus (Chr is_space)) (Grp 2 (times 4 (Chr is_digit))))"

definition abbr_month_year_re :: regex where
  \<comment> \<open>\<open>([A-Za-z]{3})'?\s*'?\s*(\d{2,4})\<close>\<close>
  "abbr_month_year_re =
     Seq (Grp 1 (times 3 (Chr is_alpha)))
       (Seq (opt (Chr (\<lambda>c. c = 39)))
         (Seq (Star True (Chr is_space))
           (Seq (opt (Chr (\<lambda>c. c = 39)))
             (Seq (Star True (Chr is_space))
               (Grp 2 (between 2 4 (Chr is_digit)))))))"

definition four_digits_re :: regex where
  \<comment> \<open>\<open>(\d{4})\<close>\<close>
  "four_digits_re = Grp 1 (times 4 (Chr is_digit))"

definition present_re :: regex where
  \<comment> \<open>\<open>(?i)(present|current|now|ongoing)\<close>\<close>
  "present_re =
     Grp 1 (alts (map lit_i [str ''present'', str ''current'', str ''now'', str ''ongoing'']))"

definition four_digit_year :: "pystr \<Rightarrow> pystr" where
  \<comment> \<open>the conversion of a 2-digit year, written out in both date parsers\<close>
  "four_digit_year year_str =
     (if length year_str = 2 then
        (if py_int year_str \<le> 30 then str ''20'' @ year_str else str ''19'' @ year_str)
      else year_str)"

text \<open>
  \<open>_parse_start_date\<close>. Its argument is a string at every call; the debugging \<open>print\<close> has
  no part in the result.
\<close>

definition parse_start_date :: "pystr \<Rightarrow> pystr" where
  "parse_start_date date_string =
     (if date_string = [] then []
      else case re_search full_month_year_re date_string of
        Some m \<Rightarrow>
          (let month_str = group_str m 1; year_str = group_str m 2;
               month_num = dict_get full_month_map (py_capitalize month_str) (str ''01'')
           in year_str @ str ''-'' @ month_num @ str ''-01'')
      | None \<Rightarrow>
          (case re_search abbr_month_year_re date_string of
             Some m \<Rightarrow>
               (let month_str = group_str m 1;
                    year_str = four_digit_year (group_str m 2);
                    month_num = dict_get abbr_month_map (py_capitalize month_str) (str ''01'')
                in year_str @ str ''-'' @ month_num @ str ''-01'')
           | None \<Rightarrow>
               (case re_search four_digits_re date_string of
                  Some m \<Rightarrow> group_str m 1 @ str ''-01-01''
                | None \<Rightarrow> [])))"

definition parse_end_date :: "pystr \<Rightarrow> pystr" where
  "parse_end_date date_string =
     (if date_string = [] then []
      else if re_search present_re date_string \<noteq> None then str ''Present''
      else
        (let date_matches = re_findall full_month_year_re date_string in
         if length date_matches \<ge> 2 then
           (let month_str = group_str (date_matches ! 1) 1;
                year_str = group_str (date_matches ! 1) 2;
                month_num = dict_get full_month_map (py_capitalize month_str) (str ''12'')
            in year_str @ str ''-'' @ month_num @ str ''-01'')
         else
           (let date_matches = re_findall abbr_month_year_re date_string in
            if length date_matches \<ge> 2 then
              (let month_str = group_str (date_matches ! 1) 1;
                   year_str = four_digit_year (group_str (date_matches ! 1) 2);
                   month_num = dict_get abbr_month_map (py_capitalize month_str) (str ''12'')
               in year_str @ str ''-'' @ month_num @ str ''-01'')
            else
              (let year_matches = re_findall four_digits_re date_string in
               if length year_matches \<ge> 2 then group_str (last year_matches) 1 @ str ''-12-31''
               else if length year_matches = 1 then group_str (year_matches ! 0) 1 @ str ''-12-31''
               else []))))"

section \<open>The experience section\<close>

text \<open>
  The first loop of \<open>_extract_experience_improved\<close> finds the line range of the experience
  section. \<open>experience_start\<close> and \<open>experience_end\<close> are \<open>-1\<close> in the source until they are
  set; here they are \<open>None\<close>. A step of the loop either goes on to the next line
  (\<open>Continue\<close>, also for the source's \<open>continue\<close>) or leaves the loop (\<open>Break\<close>). The
  \<open>break\<close> inside the loops over the header lists only ends the comparison with the headers.
\<close>

definition experience_headers :: "pystr list" where
  "experience_headers =
     [str ''PROFESSIONAL EXPERIENCE'', str ''WORK EXPERIENCE'', str ''EMPLOYMENT HISTORY'',
      str ''EMPLOYMENT'', str ''CHRONOLOGICAL SUMMARY OF EXPERIENCE'',
      str ''CAREER HISTORY'', str ''WORK HISTORY'',
      str ''PROJECT HISTORY'', str ''PROJECT EXPERIENCE'', str ''PROJECTS'']"

definition end_headers :: "pystr list" where
  "end_headers =
     [str ''EDUCATION'', str ''SKILLS'', str ''TECHNICAL SKILLS'', str ''RELEVANT SKILLS'',
      str ''PROJECTS'', str ''CERTIFICATIONS'', str ''ACHIEVEMENTS'', str ''AWARDS'']"

definition first_line_indicators :: "pystr list" where
  "first_line_indicators =
     [str ''Pvt.'', str ''Ltd.'', str ''Inc.'', str ''Corp.'', str ''Company'', str ''LLC'']"

definition summary_indicators :: "pystr list" where
  "summary_indicators =
     [str ''extensive experience'', str ''experience in'', str ''experience includes'']"

definition is_header :: "pystr list \<Rightarrow> pystr \<Rightarrow> bool" where
  \<comment> \<open>some header \<open>h\<close> of the list has \<open>line_clean.upper() == h\<close> or \<open>== h + ':'\<close>\<close>
  "is_header headers line_clean =
     list_ex (\<lambda>h. py_upper line_clean = h \<or> py_upper line_clean = h @ str '':'') headers"

definition locate_step ::
  "pystr list \<Rightarrow> nat \<Rightarrow> nat option \<times> nat option \<Rightarrow> (nat option \<times> nat option) loop" where
  "locate_step lines i st =
     (let experience_start = fst st; experience_end = snd st;
          line_clean = py_strip (lines ! i) in
      if line_clean = [] then Continue st
      else if experience_start = None then
        if i = 0 \<and> (contains (str ''PROJECT HISTORY'') (py_upper line_clean)
                    \<or> any_in first_line_indicators line_clean)
        then Break (Some 0, experience_end)
        else
          (let experience_start =
                 (if is_header experience_headers line_clean then Some (i + 1) else None) in
           if experience_start = None \<and> py_upper line_clean = str ''EXPERIENCE'' then
             (let context_lines =
                    map (\<lambda>j. py_lower (py_strip (lines ! j)))
                      [i - 2 ..< min (length lines) (i + 3)];
                  context_text = py_join (str '' '') context_lines in
              if \<not> any_in summary_indicators context_text
              then Break (Some (i + 1), experience_end)
              else Continue (experience_start, experience_end))
           else Continue (experience_start, experience_end))
      else if experience_end = None then
        (if is_header end_headers line_clean then Continue (experience_start, Some i)
         else Continue st)
      else Continue st)"

fun locate_loop ::
  "pystr list \<Rightarrow> nat list \<Rightarrow> nat option \<times> nat option \<Rightarrow> nat option \<times> nat option" where
  "locate_loop lines [] st = st"
| "locate_loop lines (i # is) st =
     (case locate_step lines i st of
        Break st' \<Rightarrow> st'
      | Continue st' \<Rightarrow> locate_loop lines is st')"

definition experience_section :: "pystr \<Rightarrow> pystr list option" where
  \<comment> \<open>\<open>experience_lines\<close>; \<open>None\<close> when the function returns early with no position\<close>
  "experience_section text =
     (let lines = split_lines text;
          st = locate_loop lines [0 ..< length lines] (None, None) in
      case fst st of
        None \<Rightarrow> None
      | Some experience_start \<Rightarrow>
          (let experience_end = (case snd st of None \<Rightarrow> length lines | Some e \<Rightarrow> e)
           in Some (slice lines experience_start experience_end)))"

section \<open>Quality score\<close>

text \<open>
  \<open>_calculate_quality_score\<close>: the score starts at \<open>0.0\<close> and each of the four groups adds
  its weight when it is present. A Python value is true when it is a non-empty string or
  list. The float additions are read as additions of real numbers.
\<close>

definition calculate_quality_score ::
  "contact_info \<Rightarrow> position list \<Rightarrow> education_entry list \<Rightarrow> skill_out list \<Rightarrow> real" where
  "calculate_quality_score contact experience education skills =
     (let score = 0;
          score = (if formatted_name (candidate_name contact) \<noteq> [] then score + 0.25 else score);
          score = (if experience \<noteq> [] then score + 0.30 else score);
          score = (if education \<noteq> [] then score + 0.25 else score);
          score = (if skills \<noteq> [] then score + 0.20 else score)
      in score)"

section \<open>Degree type classification\<close>

definition doctorate_keywords :: "pystr list" where
  "doctorate_keywords = [str ''phd'', str ''ph.d'', str ''doctorate'', str ''doctoral'']"

definition masters_keywords :: "pystr list" where
  "masters_keywords =
     [str ''master'', str ''mba'', str ''msc'', str ''ms '', str ''ma '', str ''executive mba'']"

definition classify_degree_type :: "pystr \<Rightarrow> pystr" where
  "classify_degree_type dn =
     (let degree_lower = py_lower dn in
      if any_in doctorate_keywords degree_lower then str ''doctorate''
      else if any_in masters_keywords degree_lower then str ''masters''
      else str ''bachelors'')"

section \<open>Deduplication of skills\<close>

text \<open>
  \<open>_deduplicate_skills\<close> keeps a dictionary from upper-cased names to skills. A Python
  dictionary keeps its keys in insertion order and an assignment to an existing key keeps the
  key's place, which is what \<open>AList.update\<close> does on an association list.
\<close>

definition dedup_step :: "(pystr \<times> skill) list \<Rightarrow> skill \<Rightarrow> (pystr \<times> skill) list" where
  "dedup_step seen_skills sk =
     (let skill_name = py_upper (name sk) in
      case map_of seen_skills skill_name of
        None \<Rightarrow> AList.update skill_name sk seen_skills
      | Some old \<Rightarrow>
          if confidence sk > confidence old then AList.update skill_name sk seen_skills
          else seen_skills)"

definition deduplicate_skills :: "skill list \<Rightarrow> skill list" where
  "deduplicate_skills skills = map snd (foldl dedup_step [] skills)"

section \<open>Deduplication of education entries\<close>

text \<open>
  The last loop of \<open>_extract_education_improved\<close>: an entry is kept when its degree name is
  non-empty and has not been seen before.
\<close>

fun unique_education_from :: "pystr set \<Rightarrow> education_entry list \<Rightarrow> education_entry list" where
  "unique_education_from seen_degrees [] = []"
| "unique_education_from seen_degrees (edu # rest) =
     (if degree_name edu \<noteq> [] \<and> degree_name edu \<notin> seen_degrees
      then edu # unique_education_from (insert (degree_name edu) seen_degrees) rest
      else unique_education_from seen_degrees rest)"

definition unique_education :: "education_entry list \<Rightarrow> education_entry list" where
  "unique_education education = unique_education_from {} education"

section \<open>Contact information\<close>

definition email_re :: regex where
  \<comment> \<open>\<open>\b([a-zA-Z0-9._%+-]+@[a-zA-Z0-9.-]+\.[a-zA-Z]{2,})\b\<close>\<close>
  "email_re =
     seqs [Wordb,
           Grp 1 (seqs [plus (Chr (\<lambda>c. is_alpha c \<or> is_digit c \<or> c \<in> set (str ''._%+-''))),
                        lit (str ''@''),
                        plus (Chr (\<lambda>c. is_alpha c \<or> is_digit c \<or> c \<in> set (str ''.-''))),
                        lit (str ''.''),
                        times 2 ltr, star ltr]),
           Wordb]"

definition phone_sep :: regex where
  \<comment> \<open>\<open>[-.\<dots>\s]\<close> with the en dash\<close>
  "phone_sep = Chr (\<lambda>c. c = 45 \<or> c = 46 \<or> c = 8211 \<or> is_space c)"

definition phone_sep_paren :: regex where
  \<comment> \<open>\<open>[-.\<dots>)\s]\<close> with the en dash\<close>
  "phone_sep_paren = Chr (\<lambda>c. c = 45 \<or> c = 46 \<or> c = 8211 \<or> c = 41 \<or> is_space c)"

definition phone_prefixed :: "pystr \<Rightarrow> regex" where
  \<comment> \<open>\<open>Phone[:\s]*\(?(\d{3})\)?[-.\<dots>\s]*(\d{3})[-.\<dots>\s]*(\d{4})\<close>, also for Tel, Mobile, Cell\<close>
  "phone_prefixed word =
     seqs [lit word, star (Chr (\<lambda>c. c = 58 \<or> is_space c)), opt (lit (str ''('')),
           Grp 1 (times 3 dgt), opt (lit (str '')'')), star phone_sep,
           Grp 2 (times 3 dgt), star phone_sep, Grp 3 (times 4 dgt)]"

definition phone_patterns :: "regex list" where
  "phone_patterns =
     [seqs [lit (str ''(''), Grp 1 (times 3 dgt), lit (str '')''), star phone_sep,
            Grp 2 (times 3 dgt), star phone_sep, Grp 3 (times 4 dgt)],
      seqs [lit (str ''(''), Grp 1 (times 3 dgt), lit (str '')''), star spc,
            Grp 2 (times 3 dgt), Chr (\<lambda>c. c = 45 \<or> c = 46 \<or> c = 8211), star spc,
            Grp 3 (times 4 dgt)],
      seqs [Grp 1 (times 3 dgt), plus phone_sep, Grp 2 (times 3 dgt), plus phone_sep,
            Grp 3 (times 4 dgt)],
      seqs [lit (str ''+''), opt (lit (str ''1'')), star spc, Grp 1 (times 3 dgt),
            star phone_sep_paren, Grp 2 (times 3 dgt), star phone_sep_paren,
            Grp 3 (times 4 dgt)],
      phone_prefixed (str ''Phone''), phone_prefixed (str ''Tel''),
      phone_prefixed (str ''Mobile''), phone_prefixed (str ''Cell'')]"

definition name_re1 :: regex where
  \<comment> \<open>\<open>^[A-Z][a-z]+ [A-Z][a-z]+\<close>\<close>
  "name_re1 = seqs [Bol, upr, plus lwr, lit (str '' ''), upr, plus lwr]"

definition name_re2 :: regex where
  \<comment> \<open>\<open>^[A-Z][a-z]+ [A-Z]\. [A-Z][a-z]+\<close>\<close>
  "name_re2 = seqs [Bol, upr, plus lwr, lit (str '' ''), upr, lit (str ''. ''), upr, plus lwr]"

definition location_re :: regex where
  \<comment> \<open>\<open>([A-Z][a-z]+),\s*([A-Z][a-z]?)\<close>\<close>
  "location_re =
     seqs [Grp 1 (seqs [upr, plus lwr]), lit (str '',''), star spc, Grp 2 (seqs [upr, opt lwr])]"

definition name_stop_words :: "pystr list" where
  "name_stop_words =
     [str ''EXPERIENCE'', str ''EDUCATION'', str ''SKILLS'', str ''PROJECT'', str ''DEVELOPER'',
      str ''ENGINEER'', str ''MANAGER'', str ''CONSULTANT'', str ''COMPANY'', str ''CORP'',
      str ''INC'', str ''LLC'', str ''LTD'', str ''PVT'', str ''SOLUTIONS'',
      str ''TECHNOLOGIES'', str ''SYSTEMS'', str ''JUNE'', str ''JULY'', str ''AUGUST'',
      str ''SEPTEMBER'', str ''OCTOBER'', str ''NOVEMBER'', str ''DECEMBER'', str ''JANUARY'',
      str ''FEBRUARY'', str ''MARCH'', str ''APRIL'', str ''MAY'', str ''HYDERABAD'',
      str ''BANGALORE'', str ''MUMBAI'', str ''DELHI'', str ''CHENNAI'', str ''PRESENT'',
      str ''TO'', str ''ENVIRONMENT'', str ''ANGULARJS'', str ''TELERIK'', str ''WEB'',
      str ''UI'', str ''HTTP'', str ''MODULES'', str ''SKILL'', str ''SUMMARY'',
      str ''TECHNICAL'', str ''PROFESSIONAL'', str ''CERTIFIED'', str ''ADMIN'']"

definition is_name_line :: "pystr \<Rightarrow> bool" where
  \<comment> \<open>the test of the name loop on a stripped line; a line on which it holds ends the loop\<close>
  "is_name_line line_clean =
     (\<not> (line_clean = [] \<or> length line_clean < 3)
      \<and> ((py_isupper line_clean
            \<and> 2 \<le> length (py_split_ws line_clean) \<and> length (py_split_ws line_clean) \<le> 4)
           \<or> re_match name_re1 line_clean \<noteq> None
           \<or> re_match name_re2 line_clean \<noteq> None)
      \<and> \<not> any_in name_stop_words (py_upper line_clean))"

fun first_match :: "regex list \<Rightarrow> pystr \<Rightarrow> rx_match option" where
  \<comment> \<open>the match of the first pattern of the list that is found in the text\<close>
  "first_match [] text = None"
| "first_match (r # rs) text =
     (case re_search r text of Some m \<Rightarrow> Some m | None \<Rightarrow> first_match rs text)"

definition name_from_filename :: "pystr \<Rightarrow> pystr" where
  "name_from_filename filename =
     (let base = py_replace (str ''.pdf'') []
                   (py_replace (str ''.docx'') []
                     (py_replace (str ''.doc'') [] (basename filename))) in
      if contains (str ''resume of '') (py_lower base) then
        (let potential_name = py_strip (py_replace (str ''resume of '') [] (py_lower base))
         in py_join (str '' '') (map py_capitalize (py_split_ws potential_name)))
      else if any_in [str ''connal'', str ''jackson''] (py_lower base) then str ''Connal Jackson''
      else [])"

definition extract_contact_info :: "pystr \<Rightarrow> pystr \<Rightarrow> contact_info" where
  "extract_contact_info text filename =
     (let lines = split_lines (py_strip text);
          email = (case re_search email_re text of None \<Rightarrow> [] | Some m \<Rightarrow> group_str m 1);
          name = (case find is_name_line (map py_strip (take 15 lines)) of
                    None \<Rightarrow> [] | Some line_clean \<Rightarrow> line_clean);
          name = (if name = [] \<and> email \<noteq> [] then
                    (let email_username = py_lower (hd (py_split (str ''@'') email)) in
                     if contains (str ''ashok'') email_username then str ''Ashok Kumar''
                     else if contains (str ''connal'') email_username then str ''Connal Jackson''
                     else name)
                  else name);
          name = (if name = [] \<and> filename \<noteq> [] then name_from_filename filename else name);
          name_parts = (if name \<noteq> [] then py_split_ws name else []);
          given = (if name_parts \<noteq> [] then hd name_parts else []);
          family = (if length name_parts > 1 then last name_parts else []);
          phone = (case first_match phone_patterns text of
                     None \<Rightarrow> []
                   | Some m \<Rightarrow> str ''('' @ group_str m 1 @ str '') '' @ group_str m 2
                                 @ str ''-'' @ group_str m 3);
          loc = (case re_search location_re (take 1000 text) of
                   None \<Rightarrow> \<lparr>municipality = [], region = [], country_code = str ''US''\<rparr>
                 | Some m \<Rightarrow> \<lparr>municipality = group_str m 1, region = group_str m 2,
                               country_code = str ''US''\<rparr>)
      in \<lparr>candidate_name =
             \<lparr>formatted_name = name, given_name = given, family_name = family\<rparr>,
          email_addresses = (if email \<noteq> [] then [email] else []),
          telephones = (if phone \<noteq> [] then [phone] else []),
          contact_location = loc\<rparr>)"

section \<open>Education\<close>

text \<open>
  \<open>_extract_education_improved\<close> collects candidates in the list \<open>education\<close>, one strategy
  after the other, and removes duplicates at the end. Each strategy is a loop over the lines;
  where the source looks ahead at \<open>lines[i+1 : min(i+k, len(lines))]\<close>, the model takes the
  first \<open>k-1\<close> of the lines that follow.
\<close>

definition edu_entry :: "pystr \<Rightarrow> pystr \<Rightarrow> pystr \<Rightarrow> education_entry" where
  "edu_entry school degree dates_text =
     \<lparr>school_name = school, degree_name = degree, degree_type = classify_degree_type degree,
      edu_dates = dates_text, edu_start_date = [], edu_end_date = [], gpa = []\<rparr>"

definition cert_keywords_upper :: "pystr list" where
  "cert_keywords_upper =
     [str ''PMP'', str ''CERTIFIED'', str ''SCRUM'', str ''CISSP'', str ''CISM'', str ''CISA'',
      str ''CRISC'']"

subsection \<open>Strategy 1: degrees in the first line\<close>

definition title_degree_re :: regex where
  \<comment> \<open>\<open>\b(MBA|MS|MA|BS|BA|PhD|MSc|BSc|Ph\.?D\.?)\s*([^,]*)\<close>, ignoring case\<close>
  "title_degree_re =
     seqs [Wordb,
           Grp 1 (alts [lit_i (str ''MBA''), lit_i (str ''MS''), lit_i (str ''MA''),
                        lit_i (str ''BS''), lit_i (str ''BA''), lit_i (str ''PhD''),
                        lit_i (str ''MSc''), lit_i (str ''BSc''),
                        seqs [lit_i (str ''Ph''), opt (lit (str ''.'')), lit_i (str ''D''),
                              opt (lit (str ''.''))]]),
           star spc, Grp 2 (star (none_of (str '','')))]"

definition strategy1_step :: "education_entry list \<Rightarrow> rx_match \<Rightarrow> education_entry list" where
  "strategy1_step education degree_match =
     (let degree_kind = py_upper (group_str degree_match 1);
          degree_field = py_strip (group_str degree_match 2) in
      if any_in cert_keywords_upper (py_upper degree_field) then education
      else
        (let dn = (if degree_field \<noteq> [] then degree_kind @ str '' '' @ degree_field
                   else degree_kind)
         in education @ [edu_entry [] dn []]))"

definition strategy1 :: "pystr list \<Rightarrow> education_entry list \<Rightarrow> education_entry list" where
  "strategy1 lines education =
     (let first_line = (case lines of [] \<Rightarrow> [] | l # _ \<Rightarrow> py_strip l) in
      if first_line \<noteq> [] then foldl strategy1_step education (re_findall title_degree_re first_line)
      else education)"

subsection \<open>Strategy 2: degree lines of the education section\<close>

definition edu_header_re :: regex where
  \<comment> \<open>\<open>^(EDUCATION|Education|EDUCATION:|Education\s*/\s*Certifications|\s*Education\s*&\s*Training)\s*:?\s*$\<close>,
      ignoring case\<close>
  "edu_header_re =
     seqs [Bol,
           Grp 1 (alts [lit_i (str ''EDUCATION''), lit_i (str ''Education''),
                        lit_i (str ''EDUCATION:''),
                        seqs [lit_i (str ''Education''), star spc, lit (str ''/''), star spc,
                              lit_i (str ''Certifications'')],
                        seqs [star spc, lit_i (str ''Education''), star spc, lit (str ''&''),
                              star spc, lit_i (str ''Training'')]]),
           star spc, opt (lit (str '':'')), star spc, Eol]"

definition edu_end_re :: regex where
  \<comment> \<open>\<open>^(Skills|Experience|Certifications|Projects|Professional|Work|Employment)\<close>, ignoring case\<close>
  "edu_end_re =
     seqs [Bol, Grp 1 (alts (map lit_i
       [str ''Skills'', str ''Experience'', str ''Certifications'', str ''Projects'',
        str ''Professional'', str ''Work'', str ''Employment'']))]"

definition degree_word_re :: regex where
  \<comment> \<open>\<open>(BSc|MSc|BA|MA|BS|MS|PhD|MBA|Bachelor|Master)\<close>, ignoring case\<close>
  "degree_word_re =
     Grp 1 (alts (map lit_i
       [str ''BSc'', str ''MSc'', str ''BA'', str ''MA'', str ''BS'', str ''MS'', str ''PhD'',
        str ''MBA'', str ''Bachelor'', str ''Master'']))"

definition degree_line_re :: regex where
  \<comment> \<open>\<open>(BSc|MSc|BA|MA|BS|MS|PhD|MBA|Bachelor[^,]*|Master[^,]*),?\s*([^,]*),?\s*(.*)\<close>,
      ignoring case\<close>
  "degree_line_re =
     seqs [Grp 1 (alts [lit_i (str ''BSc''), lit_i (str ''MSc''), lit_i (str ''BA''),
                        lit_i (str ''MA''), lit_i (str ''BS''), lit_i (str ''MS''),
                        lit_i (str ''PhD''), lit_i (str ''MBA''),
                        seqs [lit_i (str ''Bachelor''), star (none_of (str '',''))],
                        seqs [lit_i (str ''Master''), star (none_of (str '',''))]]),
           opt (lit (str '','')), star spc, Grp 2 (star (none_of (str '',''))),
           opt (lit (str '','')), star spc, Grp 3 (star dot)]"

definition strategy2_step ::
  "bool \<times> education_entry list \<Rightarrow> pystr \<Rightarrow> bool \<times> education_entry list" where
  "strategy2_step st line =
     (let in_education_section = fst st; education = snd st; line_clean = py_strip line in
      if re_match edu_header_re line_clean \<noteq> None then (True, education)
      else if in_education_section \<and> re_match edu_end_re line_clean \<noteq> None
        then (False, education)
      else if in_education_section \<and> line_clean \<noteq> [] \<and> \<not> startswith line_clean [8226] then
        (if any_in cert_keywords_upper (py_upper line_clean) then st
         else if re_search degree_word_re line_clean \<noteq> None then
           (case re_search degree_line_re line_clean of
              None \<Rightarrow> st
            | Some degree_match \<Rightarrow>
                (let dn = py_strip (group_str degree_match 1);
                     field = (if group_str degree_match 2 \<noteq> []
                              then py_strip (group_str degree_match 2) else []);
                     school_info = (if group_str degree_match 3 \<noteq> []
                                    then py_strip (group_str degree_match 3) else []);
                     dn = (if field \<noteq> [] \<and> py_lower field \<notin>
                                set [str ''computer'', str ''university'', str ''college'']
                           then dn @ str '' '' @ field else dn)
                 in (in_education_section, education @ [edu_entry school_info dn []])))
         else st)
      else st)"

definition strategy2 :: "pystr list \<Rightarrow> education_entry list \<Rightarrow> education_entry list" where
  "strategy2 lines education = snd (foldl strategy2_step (False, education) lines)"

subsection \<open>Strategy 3: degree sentences anywhere in the text\<close>

definition degree_in_university_test_re :: regex where
  \<comment> \<open>\<open>^(Bachelors?|Masters?|Executive MBA|MBA)\s+in\s+.*,\s+.*University\<close>, ignoring case\<close>
  "degree_in_university_test_re =
     seqs [Bol,
           Grp 1 (alts [seqs [lit_i (str ''Bachelor''), opt (lit_i (str ''s''))],
                        seqs [lit_i (str ''Master''), opt (lit_i (str ''s''))],
                        lit_i (str ''Executive MBA''), lit_i (str ''MBA'')]),
           plus spc, lit_i (str ''in''), plus spc, star dot, lit (str '',''), plus spc,
           star dot, lit_i (str ''University'')]"

definition degree_in_university_re :: regex where
  \<comment> \<open>\<open>^(Bachelors?|Masters?|Executive MBA|MBA)\s+in\s+(.*?),\s+(.*University[^,]*)\<close>,
      ignoring case\<close>
  "degree_in_university_re =
     seqs [Bol,
           Grp 1 (alts [seqs [lit_i (str ''Bachelor''), opt (lit_i (str ''s''))],
                        seqs [lit_i (str ''Master''), opt (lit_i (str ''s''))],
                        lit_i (str ''Executive MBA''), lit_i (str ''MBA'')]),
           plus spc, lit_i (str ''in''), plus spc, Grp 2 (lazy_star dot), lit (str '',''),
           plus spc,
           Grp 3 (seqs [star dot, lit_i (str ''University''), star (none_of (str '',''))])]"

definition degree_of :: regex where
  \<comment> \<open>\<open>(Master of|Bachelor of|PhD in|PHD in)\<close>, ignoring case\<close>
  "degree_of =
     Grp 1 (alts (map lit_i
       [str ''Master of'', str ''Bachelor of'', str ''PhD in'', str ''PHD in'']))"

definition degree_from_test_re :: regex where
  \<comment> \<open>\<open>(Master of|Bachelor of|PhD in|PHD in)\s+.*\s+(from|at)\s+.*University\<close>, ignoring case\<close>
  "degree_from_test_re =
     seqs [degree_of, plus spc, star dot, plus spc,
           Grp 2 (alts [lit_i (str ''from''), lit_i (str ''at'')]), plus spc, star dot,
           lit_i (str ''University'')]"

definition degree_from_re :: regex where
  \<comment> \<open>\<open>(Master of|Bachelor of|PhD in|PHD in)\s+(.*?)\s+(?:with.*?)?\s*(?:from|at)\s+(.*)\<close>,
      ignoring case\<close>
  "degree_from_re =
     seqs [degree_of, plus spc, Grp 2 (lazy_star dot), plus spc,
           opt (seqs [lit_i (str ''with''), lazy_star dot]), star spc,
           alts [lit_i (str ''from''), lit_i (str ''at'')], plus spc, Grp 3 (star dot)]"

definition degree_sentence_test_re :: regex where
  \<comment> \<open>\<open>^(Master of Science|Master of Business Administration|Bachelor of|PhD|PHD)\s+.*\<close>,
      ignoring case\<close>
  "degree_sentence_test_re =
     seqs [Bol,
           Grp 1 (alts (map lit_i
             [str ''Master of Science'', str ''Master of Business Administration'',
              str ''Bachelor of'', str ''PhD'', str ''PHD''])),
           plus spc, star dot]"

definition degree_sentence_re :: regex where
  \<comment> \<open>\<open>^(Master of Science|Master of Business Administration|Bachelor of[^,]*|PhD|PHD)\s*(.*?)(?:\s+with.*)?$\<close>,
      ignoring case\<close>
  "degree_sentence_re =
     seqs [Bol,
           Grp 1 (alts [lit_i (str ''Master of Science''),
                        lit_i (str ''Master of Business Administration''),
                        seqs [lit_i (str ''Bachelor of''), star (none_of (str '',''))],
                        lit_i (str ''PhD''), lit_i (str ''PHD'')]),
           star spc, Grp 2 (lazy_star dot),
           opt (seqs [plus spc, lit_i (str ''with''), star dot]), Eol]"

definition degree_in_test_re :: regex where
  \<comment> \<open>\<open>^(PHD|PhD|Master|Bachelor)\s+in\s+.*\<close>, ignoring case\<close>
  "degree_in_test_re =
     seqs [Bol,
           Grp 1 (alts (map lit_i [str ''PHD'', str ''PhD'', str ''Master'', str ''Bachelor''])),
           plus spc, lit_i (str ''in''), plus spc, star dot]"

definition degree_in_re :: regex where
  \<comment> \<open>\<open>^(PHD|PhD|Master|Bachelor)\s+in\s+(.*)\<close>, ignoring case\<close>
  "degree_in_re =
     seqs [Bol,
           Grp 1 (alts (map lit_i [str ''PHD'', str ''PhD'', str ''Master'', str ''Bachelor''])),
           plus spc, lit_i (str ''in''), plus spc, Grp 2 (star dot)]"

definition school_words_lower :: "pystr list" where
  "school_words_lower = [str ''university'', str ''college'', str ''institute'']"

definition found_line :: "(pystr \<Rightarrow> bool) \<Rightarrow> pystr list \<Rightarrow> pystr" where
  \<comment> \<open>the first stripped line of the look-ahead that passes the test, else the empty string\<close>
  "found_line test next_lines =
     (case find test (map py_strip next_lines) of None \<Rightarrow> [] | Some next_line \<Rightarrow> next_line)"

text \<open>
  The loop skips a line when \<open>line_clean in [line.strip() for edu in education for edu in [...]]\<close>.
  The expression of that comprehension is \<open>line.strip()\<close> for the line of the loop, once for
  every entry of \<open>education\<close>: the test holds as soon as \<open>education\<close> is not empty.
\<close>

definition strategy3_line ::
  "pystr \<Rightarrow> pystr list \<Rightarrow> education_entry list \<Rightarrow> education_entry list" where
  "strategy3_line line rest education =
     (let line_clean = py_strip line in
      if line_clean = [] \<or> line_clean \<in> set (map (\<lambda>edu. py_strip line) education) then education
      else if re_search degree_in_university_test_re line_clean \<noteq> None then
        (case re_search degree_in_university_re line_clean of
           None \<Rightarrow> education
         | Some m \<Rightarrow>
             (let kind = py_strip (group_str m 1); field = py_strip (group_str m 2);
                  school = py_strip (group_str m 3)
              in education @ [edu_entry school (kind @ str '' in '' @ field) []]))
      else if re_search degree_from_test_re line_clean \<noteq> None then
        (case re_search degree_from_re line_clean of
           None \<Rightarrow> education
         | Some m \<Rightarrow>
             (let kind = py_strip (group_str m 1); field = py_strip (group_str m 2);
                  school = py_strip (group_str m 3)
              in education @ [edu_entry school (kind @ str '' '' @ field) []]))
      else if re_search degree_sentence_test_re line_clean \<noteq> None then
        (case re_search degree_sentence_re line_clean of
           None \<Rightarrow> education
         | Some m \<Rightarrow>
             (let degree_base = py_strip (group_str m 1);
                  field = (if group_str m 2 \<noteq> [] then py_strip (group_str m 2) else []);
                  dn = py_strip (degree_base @ str '' '' @ field);
                  school = found_line (\<lambda>next_line. any_in school_words_lower (py_lower next_line))
                             (take 2 rest)
              in education @ [edu_entry school dn []]))
      else if re_search degree_in_test_re line_clean \<noteq> None then
        (case re_search degree_in_re line_clean of
           None \<Rightarrow> education
         | Some m \<Rightarrow>
             (let kind = group_str m 1; field = py_strip (group_str m 2);
                  school = found_line
                             (\<lambda>next_line. any_in school_words_lower (py_lower next_line)
                                \<and> \<not> startswith next_line [216])
                             (take 3 rest)
              in education @ [edu_entry school (kind @ str '' in '' @ field) []]))
      else education)"

fun strategy3 :: "pystr list \<Rightarrow> education_entry list \<Rightarrow> education_entry list" where
  "strategy3 [] education = education"
| "strategy3 (line # rest) education = strategy3 rest (strategy3_line line rest education)"

subsection \<open>Strategy 4: degrees numbered with Roman numerals\<close>

definition one_of_i :: "pystr \<Rightarrow> regex" where
  \<comment> \<open>a character of the given ones, ignoring case\<close>
  "one_of_i s = Chr (\<lambda>c. lower_chr c \<in> set (py_lower s))"

definition education_only_re :: regex where
  \<comment> \<open>\<open>^Education\s*$\<close>, ignoring case\<close>
  "education_only_re = seqs [Bol, lit_i (str ''Education''), star spc, Eol]"

definition roman_section_end_re :: regex where
  \<comment> \<open>\<open>^(Certificates?|Skills|Management|IT\s+Skills)\<close>, ignoring case\<close>
  "roman_section_end_re =
     seqs [Bol,
           Grp 1 (alts [seqs [lit_i (str ''Certificate''), opt (lit_i (str ''s''))],
                        lit_i (str ''Skills''), lit_i (str ''Management''),
                        seqs [lit_i (str ''IT''), plus spc, lit_i (str ''Skills'')]])]"

definition roman_degree_test_re :: regex where
  \<comment> \<open>\<open>[IVX]+\.\s*(Bachelor|Master)\<close>, ignoring case\<close>
  "roman_degree_test_re =
     seqs [plus (one_of_i (str ''IVX'')), lit (str ''.''), star spc,
           Grp 1 (alts [lit_i (str ''Bachelor''), lit_i (str ''Master'')])]"

definition roman_degree_re :: regex where
  \<comment> \<open>\<open>[IVX]+\.\s*(.*)\<close>, case-sensitive\<close>
  "roman_degree_re =
     seqs [plus (one_of (str ''IVX'')), lit (str ''.''), star spc, Grp 1 (star dot)]"

definition school_year_re :: regex where
  \<comment> \<open>\<open>^(.*?)\s*\((\d{4})\)$\<close>\<close>
  "school_year_re =
     seqs [Bol, Grp 1 (lazy_star dot), star spc, lit (str ''(''), Grp 2 (times 4 dgt),
           lit (str '')''), Eol]"

definition school_words :: "pystr list" where
  "school_words = [str ''University'', str ''School'', str ''College'', str ''Institute'']"

definition roman_school :: "pystr list \<Rightarrow> pystr \<times> pystr" where
  \<comment> \<open>the school name and the dates found in the look-ahead\<close>
  "roman_school next_lines =
     (case find (\<lambda>next_line. next_line \<noteq> [] \<and> any_in school_words next_line)
             (map py_strip next_lines) of
        None \<Rightarrow> ([], [])
      | Some next_line \<Rightarrow>
          (case re_match school_year_re next_line of
             Some school_match \<Rightarrow>
               (py_strip (group_str school_match 1), py_strip (group_str school_match 2))
           | None \<Rightarrow> (next_line, [])))"

definition strategy4_step ::
  "pystr \<Rightarrow> pystr list \<Rightarrow> bool \<times> education_entry list \<Rightarrow> (bool \<times> education_entry list) loop"
  where
  "strategy4_step line rest st =
     (let in_education_section = fst st; education = snd st; line_clean = py_strip line in
      if re_match education_only_re line_clean \<noteq> None then Continue (True, education)
      else if in_education_section \<and> re_match roman_section_end_re line_clean \<noteq> None
        then Break st
      else if in_education_section \<and> line_clean \<noteq> []
              \<and> re_match roman_degree_test_re line_clean \<noteq> None then
        (case re_search roman_degree_re line_clean of
           None \<Rightarrow> Continue st
         | Some degree_match \<Rightarrow>
             (let dn = py_strip (group_str degree_match 1);
                  school = roman_school (take 3 rest)
              in Continue (in_education_section,
                           education @ [edu_entry (fst school) dn (snd school)])))
      else Continue st)"

fun strategy4_loop ::
  "pystr list \<Rightarrow> bool \<times> education_entry list \<Rightarrow> bool \<times> education_entry list" where
  "strategy4_loop [] st = st"
| "strategy4_loop (line # rest) st =
     (case strategy4_step line rest st of
        Break st' \<Rightarrow> st'
      | Continue st' \<Rightarrow> strategy4_loop rest st')"

definition strategy4 :: "pystr list \<Rightarrow> education_entry list \<Rightarrow> education_entry list" where
  "strategy4 lines education = snd (strategy4_loop lines (False, education))"

subsection \<open>Strategy 5: the school on one line, the degree on a following one\<close>

definition university_usa_re :: regex where
  \<comment> \<open>\<open>University.*-.*USA\<close> where the dash is an en dash, ignoring case\<close>
  "university_usa_re =
     seqs [lit_i (str ''University''), star dot, lit [8211], star dot, lit_i (str ''USA'')]"

definition university_uk_re :: regex where
  \<comment> \<open>\<open>University.*,.*UK\<close>, ignoring case\<close>
  "university_uk_re =
     seqs [lit_i (str ''University''), star dot, lit (str '',''), star dot, lit_i (str ''UK'')]"

definition known_degree :: regex where
  \<comment> \<open>\<open>(Master of Business Administration|Bachelor of Computer Science|MBA)\<close>, ignoring case\<close>
  "known_degree =
     Grp 1 (alts (map lit_i
       [str ''Master of Business Administration'', str ''Bachelor of Computer Science'',
        str ''MBA'']))"

definition known_degree_re :: regex where
  \<comment> \<open>the same followed by any characters other than an en dash\<close>
  "known_degree_re = Seq known_degree (star (none_of [8211]))"

definition strategy5_line ::
  "pystr \<Rightarrow> pystr list \<Rightarrow> education_entry list \<Rightarrow> education_entry list" where
  "strategy5_line line rest education =
     (let line_clean = py_strip line in
      if re_search university_usa_re line_clean \<noteq> None
         \<or> re_search university_uk_re line_clean \<noteq> None then
        (case find (\<lambda>next_line. re_search known_degree next_line \<noteq> None)
                (map py_strip (take 3 rest)) of
           None \<Rightarrow> education
         | Some next_line \<Rightarrow>
             (case re_search known_degree_re next_line of
                None \<Rightarrow> education
              | Some degree_match \<Rightarrow>
                  (let dn = py_strip (group_str degree_match 0);
                       already_exists =
                         list_ex (\<lambda>edu. py_lower (degree_name edu) = py_lower dn) education
                   in if \<not> already_exists then education @ [edu_entry line_clean dn []]
                      else education)))
      else education)"

fun strategy5 :: "pystr list \<Rightarrow> education_entry list \<Rightarrow> education_entry list" where
  "strategy5 [] education = education"
| "strategy5 (line # rest) education = strategy5 rest (strategy5_line line rest education)"

subsection \<open>The extractor\<close>

definition education_candidates :: "pystr \<Rightarrow> education_entry list" where
  \<comment> \<open>the list \<open>education\<close> after the five strategies\<close>
  "education_candidates text =
     (let lines = split_lines text in
      strategy5 lines (strategy4 lines (strategy3 lines (strategy2 lines (strategy1 lines [])))))"

definition extract_education_improved :: "pystr \<Rightarrow> education_entry list" where
  "extract_education_improved text = unique_education (education_candidates text)"

section \<open>Employment history\<close>

text \<open>
  The second loop of \<open>_extract_experience_improved\<close> walks through the lines of the
  experience section with an index \<open>i\<close>. The model walks through the list itself: the
  line at \<open>i\<close> is the head and the lines from \<open>i + 1\<close> on are the tail. A step reports how
  many lines of the tail the inner search for the job title has used up, which is
  \<open>j - (i + 1)\<close> for the source's assignment \<open>i = j\<close>. \<open>current_position\<close> is \<open>None\<close>
  or a position.
\<close>

definition action_words :: "pystr list" where
  "action_words =
     [str ''represented'', str ''managed'', str ''led'', str ''developed'', str ''collaborated'',
      str ''oversaw'', str ''spearheaded'', str ''established'', str ''conducted'',
      str ''implemented'']"

definition company_action_words :: "pystr list" where
  "company_action_words =
     [str ''represented'', str ''managed'', str ''led'', str ''developed'', str ''collaborated'',
      str ''oversaw'', str ''spearheaded'']"

definition bullets :: "pystr list" where
  \<comment> \<open>hyphen, bullet and white bullet\<close>
  "bullets = [[45], [8226], [9702]]"

definition is_description_line :: "position option \<Rightarrow> pystr \<Rightarrow> bool" where
  "is_description_line current_position line =
     (startswith line [45] \<or> startswith line [8226] \<or> startswith line [9702]
      \<or> (current_position \<noteq> None
          \<and> (length (py_split_ws line) > 8
             \<or> startswith_any (py_lower line) action_words
             \<or> contains (str ''framework'') (py_lower line)
             \<or> contains (str ''compliance'') (py_lower line)
             \<or> contains (str ''requirements'') (py_lower line))))"

definition dash :: regex where
  \<comment> \<open>an en dash or a hyphen\<close>
  "dash = one_of [8211, 45]"

definition apostrophe :: regex where
  "apostrophe = lit [39]"

definition month_start_re :: regex where
  \<comment> \<open>\<open>^\s*\w{3}'\s*\d{2}\s*[\<dots>-]\s*\<close>\<close>
  "month_start_re =
     seqs [Bol, star spc, times 3 wrd, apostrophe, star spc, times 2 dgt, star spc, dash,
           star spc]"

definition slash_start_re :: regex where
  \<comment> \<open>\<open>^\s*\d{1,2}/\d{4}\s*[\<dots>-]\s*\<close>\<close>
  "slash_start_re =
     seqs [Bol, star spc, between 1 2 dgt, lit (str ''/''), times 4 dgt, star spc, dash,
           star spc]"

definition month_range_line_re :: regex where
  \<comment> \<open>\<open>^\s*\w{3}'\s*\d{2}\s*[\<dots>-]\s*\w{3}'\s*\d{2}\s*$\<close>\<close>
  "month_range_line_re =
     seqs [Bol, star spc, times 3 wrd, apostrophe, star spc, times 2 dgt, star spc, dash,
           star spc, times 3 wrd, apostrophe, star spc, times 2 dgt, star spc, Eol]"

definition month_present_line_re :: regex where
  \<comment> \<open>\<open>^\s*\w{3}'\s*\d{2}\s*[\<dots>-]\s*Present\s*$\<close>\<close>
  "month_present_line_re =
     seqs [Bol, star spc, times 3 wrd, apostrophe, star spc, times 2 dgt, star spc, dash,
           star spc, lit (str ''Present''), star spc, Eol]"

definition is_date_line :: "pystr \<Rightarrow> bool" where
  "is_date_line line =
     (re_search month_start_re line \<noteq> None \<or> re_search slash_start_re line \<noteq> None
      \<or> re_search month_range_line_re line \<noteq> None
      \<or> re_search month_present_line_re line \<noteq> None)"

definition company_marks :: "pystr list" where
  "company_marks =
     [str ''Pvt. Ltd.'', str ''Pvt Ltd'', str ''Inc.'', str ''Corp.'', str ''LLC'',
      str ''Company'']"

definition location_marks :: "pystr list" where
  "location_marks =
     [str ''Inc'', str ''Corp'', str ''LLC'', str ''CA'', str ''TX'', str ''NY'', str ''FL'']"

definition known_companies :: "pystr list" where
  "known_companies =
     [str ''United Airline'', str ''Emburse'', str ''PepsiCo'', str ''Ligadata Solutions'',
      str ''EtQ'']"

definition company_pattern :: "pystr \<Rightarrow> bool" where
  \<comment> \<open>the condition of lines 571 to 586; \<open>and\<close> binds tighter than \<open>or\<close> in its last line\<close>
  "company_pattern line =
     (let no_action = \<not> startswith_any (py_lower line) company_action_words in
      (contains (str '','') line
         \<and> (contains (str '' - '') line \<or> contains (str ''Remote'') line) \<and> no_action)
      \<or> (contains (str '','') line \<and> any_in location_marks line \<and> no_action)
      \<or> any_in [str ''Federal Credit Union'', str ''Client:''] line
      \<or> ((contains (str ''AT&T'') line \<or> contains (str ''DIRECTV'') line)
          \<and> (contains (str '','') line \<or> contains (str ''('') line)
          \<and> length line < 200 \<and> no_action)
      \<or> (contains [8211] line \<and> length line < 100 \<and> no_action)
      \<or> (contains (str '' - '') line \<and> length line < 100 \<and> no_action)
      \<or> (any_in known_companies line \<and> length line < 100))"

text \<open>
  The company and the location of a line that meets \<open>company_pattern\<close>. A split at a
  separator that occurs in the string gives at least two parts, so the source's unpacking
  \<open>main_part, status = line.split(sep, 1)\<close> succeeds.
\<close>

definition company_and_location :: "pystr \<Rightarrow> pystr \<times> pystr" where
  "company_and_location line =
     (if startswith line (str ''Client:'') then
        (let company_part = py_strip (py_replace (str ''Client:'') [] line) in
         if contains (str '','') company_part then
           (let company_location = py_split (str '','') company_part in
            (py_strip (hd company_location),
             py_strip (py_join (str '','') (tl company_location))))
         else (company_part, []))
      else if contains (str '' - '') line \<or> contains [8211] line then
        (let parts = (if contains [8211] line then py_split_max [8211] 1 line
                      else py_split_max (str '' - '') 1 line);
             main_part = parts ! 0; status = parts ! 1 in
         if contains (str '','') main_part then
           (let company_parts = py_split (str '','') main_part in
            (py_strip (hd company_parts),
             py_strip (py_join (str '','') (tl company_parts)) @ str '', '' @ py_strip status))
         else (py_strip main_part, py_strip status))
      else if contains (str ''('') line \<and> contains (str '')'') line then
        (let main_part = py_strip (hd (py_split (str ''('') line)) in
         if contains (str '','') main_part then
           (let company_location = py_rsplit_max (str '','') 2 main_part in
            if length company_location \<ge> 2 then
              (py_strip (hd company_location),
               py_strip (py_join (str '', '') (tl company_location)))
            else (py_strip main_part, []))
         else (py_strip main_part, []))
      else if contains (str '','') line then
        (let company_parts = py_split (str '','') line in
         (py_strip (hd company_parts), py_strip (py_join (str '','') (tl company_parts))))
      else (py_strip line, []))"

definition title_keywords :: "pystr list" where
  "title_keywords =
     [str ''Consultant'', str ''Manager'', str ''Director'', str ''Engineer'', str ''Developer'',
      str ''PMO'', str ''Sr.'', str ''Lead'', str ''Project'']"

definition title_paren_re :: regex where
  \<comment> \<open>\<open>^(.*?)\s*\((.*?)\).*?$\<close>\<close>
  "title_paren_re =
     seqs [Bol, Grp 1 (lazy_star dot), star spc, lit (str ''(''), Grp 2 (lazy_star dot),
           lit (str '')''), lazy_star dot, Eol]"

definition date_word_re :: regex where
  \<comment> \<open>\<open>(January|...|December|\d{1,2}/\d{4}|\d{4})\<close>, ignoring case\<close>
  "date_word_re =
     Grp 1 (alts (map lit_i full_month_names
                  @ [seqs [between 1 2 dgt, lit (str ''/''), times 4 dgt], times 4 dgt]))"

definition month_or_present :: regex where
  \<comment> \<open>\<open>\w{3}'?\s*\d{2}|Present|Current\<close>\<close>
  "month_or_present =
     alts [seqs [times 3 wrd, opt apostrophe, star spc, times 2 dgt], lit (str ''Present''),
           lit (str ''Current'')]"

definition title_range_test_re :: regex where
  \<comment> \<open>\<open>\w{3}'?\s*\d{2}\s*[\<dots>-]\s*(\w{3}'?\s*\d{2}|Present|Current)\<close>\<close>
  "title_range_test_re =
     seqs [times 3 wrd, opt apostrophe, star spc, times 2 dgt, star spc, dash, star spc,
           Grp 1 month_or_present]"

definition title_range_re :: regex where
  \<comment> \<open>\<open>^(.*?)\s+(\w{3}'?\s*\d{2}\s*[\<dots>-]\s*(?:\w{3}'?\s*\d{2}|Present|Current).*?)$\<close>\<close>
  "title_range_re =
     seqs [Bol, Grp 1 (lazy_star dot), plus spc,
           Grp 2 (seqs [times 3 wrd, opt apostrophe, star spc, times 2 dgt, star spc, dash,
                        star spc, month_or_present, lazy_star dot]),
           Eol]"

definition date_hint_re :: regex where
  \<comment> \<open>\<open>\d{2}.*\d{2}|Present|Current\<close>\<close>
  "date_hint_re =
     alts [seqs [times 2 dgt, star dot, times 2 dgt], lit (str ''Present''),
           lit (str ''Current'')]"

definition title_and_dates :: "pystr \<Rightarrow> pystr \<times> pystr" where
  \<comment> \<open>\<open>job_title\<close> and \<open>dates\<close> from a line with a job keyword\<close>
  "title_and_dates next_line =
     (if contains (str ''('') next_line \<and> contains (str '')'') next_line then
        (case re_match title_paren_re next_line of
           Some title_match \<Rightarrow>
             (let potential_dates = py_strip (group_str title_match 2) in
              if re_search date_word_re potential_dates \<noteq> None
              then (py_strip (group_str title_match 1), potential_dates)
              else (next_line, []))
         | None \<Rightarrow> (next_line, []))
      else if re_search title_range_test_re next_line \<noteq> None then
        (case re_match title_range_re next_line of
           Some title_match \<Rightarrow>
             (py_strip (group_str title_match 1), py_strip (group_str title_match 2))
         | None \<Rightarrow> (next_line, []))
      else (next_line, []))"

text \<open>
  The search for a date line after the title: empty lines are passed over, and the first
  other line ends the search, giving the dates if it looks like a date. The index \<open>j\<close>
  stays on that line. The result is the dates and the number of lines passed over.
\<close>

definition dates_after :: "pystr list \<Rightarrow> pystr \<times> nat" where
  "dates_after ls =
     (let blank = takeWhile (\<lambda>l. py_strip l = []) ls in
      case drop (length blank) ls of
        [] \<Rightarrow> ([], length blank)
      | l # _ \<Rightarrow>
          (let date_line = py_strip l in
           if re_search date_hint_re date_line \<noteq> None then (date_line, length blank)
           else ([], length blank)))"

text \<open>
  The search for the job title in the lines after the company line: the result is the
  title, the dates and the number of lines that the index \<open>j\<close> has moved beyond \<open>i + 1\<close>.
\<close>

fun find_title :: "pystr list \<Rightarrow> pystr \<times> pystr \<times> nat" where
  "find_title [] = ([], [], 0)"
| "find_title (l # ls) =
     (let next_line = py_strip l in
      if next_line \<noteq> []
         \<and> \<not> (startswith next_line (str ''('') \<and> endswith next_line (str '')''))
         \<and> any_in title_keywords next_line then
        (let td = title_and_dates next_line in
         if snd td = [] then
           (let da = dates_after ls in (fst td, fst da, Suc (snd da)))
         else (fst td, snd td, 1))
      else (case find_title ls of (title, dates_text, k) \<Rightarrow> (title, dates_text, Suc k)))"

definition swap_keywords_job :: "pystr list" where
  "swap_keywords_job =
     [str ''Developer'', str ''Engineer'', str ''Manager'', str ''Analyst'', str ''Specialist'',
      str ''Director'', str ''Consultant'', str ''Administrator'', str ''Coordinator'',
      str ''Lead'', str ''Senior'', str ''Junior'', str ''Assistant'', str ''PMO'']"

definition swap_keywords_company :: "pystr list" where
  "swap_keywords_company =
     [str ''Inc'', str ''Corp'', str ''LLC'', str ''Company'', str ''Solutions'',
      str ''Technologies'', str ''Systems'', str ''Consulting'', str ''Group'', str ''Services'']"

definition push_position :: "position option \<Rightarrow> position list \<Rightarrow> position list" where
  \<comment> \<open>\<open>if current_position: positions.append(current_position)\<close>\<close>
  "push_position current_position positions =
     (case current_position of None \<Rightarrow> positions | Some p \<Rightarrow> positions @ [p])"

definition position_step ::
  "pystr \<Rightarrow> pystr list \<Rightarrow> position option \<times> position list
     \<Rightarrow> nat \<times> position option \<times> position list" where
  "position_step l rest st =
     (let current_position = fst st; positions = snd st; line = py_strip l in
      if line = [] then (0, st)
      else if is_description_line current_position line then
        (case current_position of
           None \<Rightarrow> (0, st)
         | Some p \<Rightarrow>
             (let desc = (if startswith_any line bullets then py_strip (drop 1 line) else line)
              in (0, Some (p\<lparr>description := description p @ [desc]\<rparr>), positions)))
      else if is_date_line line then
        (case current_position of
           None \<Rightarrow> (0, st)
         | Some p \<Rightarrow>
             if start_date p = [] then
               (0, Some (p\<lparr>start_date := parse_start_date line,
                           end_date := parse_end_date line\<rparr>), positions)
             else (0, st))
      else if (any_in company_marks line \<and> length line < 150) \<or> company_pattern line then
        (let cl = (if company_pattern line then company_and_location line else ([], []));
             positions = push_position current_position positions;
             found = find_title rest;
             title = fst found; dates_text = fst (snd found); k = snd (snd found);
             company_looks_like_job = (fst cl \<noteq> [] \<and> any_in swap_keywords_job (fst cl));
             job_looks_like_company =
               (title \<noteq> [] \<and> any_in swap_keywords_company title);
             swap = (company_looks_like_job \<and> job_looks_like_company)
         in (k, Some \<lparr>job_title = (if swap then fst cl else title),
                      company = (if swap then title else fst cl),
                      location = snd cl,
                      start_date = parse_start_date dates_text,
                      end_date = parse_end_date dates_text,
                      dates = dates_text,
                      description = []\<rparr>, positions))
      else (0, st))"

fun positions_loop ::
  "pystr list \<Rightarrow> position option \<times> position list \<Rightarrow> position option \<times> position list" where
  "positions_loop [] st = st"
| "positions_loop (l # rest) st =
     (case position_step l rest st of (k, st') \<Rightarrow> positions_loop (drop k rest) st')"

definition extract_experience_improved :: "pystr \<Rightarrow> position list" where
  "extract_experience_improved text =
     (case experience_section text of
        None \<Rightarrow> []
      | Some experience_lines \<Rightarrow>
          (let st = positions_loop experience_lines (None, []) in
           push_position (fst st) (snd st)))"

section \<open>Dates of positions\<close>

text \<open>
  \<open>_enhance_positions_with_dates\<close> collects the lines that hold a date range and gives
  each position that lacks a start or an end date the closest of them, at most 10 lines
  from the first line that mentions its job title or its company. The positions are
  updated in place in the source; they are distinct objects, so the update is a map over
  the list that threads the date lines still available.
\<close>

record date_info =
  line_num :: nat
  line_text :: pystr
  date_range :: pystr
  range_start :: pystr
  range_end :: pystr

definition months_from_october :: "pystr list" where
  "months_from_october =
     [str ''October'', str ''November'', str ''December'', str ''January'', str ''February'',
      str ''March'', str ''April'', str ''May'', str ''June'', str ''July'', str ''August'',
      str ''September'']"

definition month_abbreviations :: "pystr list" where
  "month_abbreviations =
     [str ''Jan'', str ''Feb'', str ''Mar'', str ''Apr'', str ''May'', str ''Jun'', str ''Jul'',
      str ''Aug'', str ''Sep'', str ''Oct'', str ''Nov'', str ''Dec'']"

definition range_sep :: regex where
  \<comment> \<open>an en dash, a hyphen or the word \<open>to\<close>\<close>
  "range_sep = alts [dash, seqs [Wordb, lit_i (str ''to''), Wordb]]"

definition range_re :: "regex \<Rightarrow> regex \<Rightarrow> regex" where
  \<comment> \<open>\<open>(first)\s*(?:[\<dots>-]|\bto\b)\s*(Present|Current|second)\<close>, ignoring case\<close>
  "range_re first second =
     seqs [first, star spc, range_sep, star spc,
           Grp 2 (alts [lit_i (str ''Present''), lit_i (str ''Current''), second])]"

definition date_patterns :: "regex list" where
  "date_patterns =
     [range_re (seqs [Grp 1 (alts (map lit_i months_from_october)), plus spc, times 4 dgt])
        (seqs [Grp 3 (alts (map lit_i months_from_october)), plus spc, times 4 dgt]),
      range_re (seqs [Grp 1 (alts (map lit_i month_abbreviations)), plus spc, between 2 4 dgt])
        (seqs [Grp 3 (alts (map lit_i month_abbreviations)), plus spc, between 2 4 dgt]),
      range_re (seqs [Grp 1 (alts (map lit_i month_abbreviations)), apostrophe, star spc,
                      times 2 dgt])
        (seqs [Grp 3 (alts (map lit_i month_abbreviations)), apostrophe, star spc,
               times 2 dgt]),
      range_re (Grp 1 (seqs [between 1 2 dgt, lit (str ''/''), times 4 dgt]))
        (seqs [between 1 2 dgt, lit (str ''/''), times 4 dgt]),
      range_re (Grp 1 (times 4 dgt)) (times 4 dgt)]"

definition date_info_of_line :: "nat \<Rightarrow> pystr \<Rightarrow> date_info option" where
  "date_info_of_line i line =
     (let line_clean = py_strip line in
      case first_match date_patterns line_clean of
        None \<Rightarrow> None
      | Some m \<Rightarrow>
          Some \<lparr>line_num = i, line_text = line_clean,
                date_range = group_str m 1 @ str '' - '' @ group_str m 2,
                range_start = group_str m 1, range_end = group_str m 2\<rparr>)"

definition find_date_lines :: "pystr list \<Rightarrow> date_info list" where
  "find_date_lines lines =
     List.map_filter (\<lambda>(i, line). date_info_of_line i line) (enumerate 0 lines)"

fun first_index :: "('a \<Rightarrow> bool) \<Rightarrow> 'a list \<Rightarrow> nat option" where
  "first_index P [] = None"
| "first_index P (x # xs) = (if P x then Some 0 else map_option Suc (first_index P xs))"

definition position_line_of :: "pystr list \<Rightarrow> position \<Rightarrow> nat option" where
  \<comment> \<open>\<open>position_line\<close>, \<open>None\<close> for \<open>-1\<close>\<close>
  "position_line_of lines p =
     first_index
       (\<lambda>line. (job_title p \<noteq> [] \<and> contains (py_lower (job_title p)) (py_lower line))
              \<or> (company p \<noteq> [] \<and> contains (py_lower (company p)) (py_lower line)))
       lines"

definition closest_step ::
  "nat \<Rightarrow> date_info option \<times> nat option \<Rightarrow> date_info \<Rightarrow> date_info option \<times> nat option" where
  \<comment> \<open>\<open>closest_date\<close> and \<open>min_distance\<close>, the latter \<open>None\<close> for infinity\<close>
  "closest_step position_line st info =
     (let distance = (if position_line \<le> line_num info then line_num info - position_line
                      else position_line - line_num info) in
      if distance \<le> 10 \<and> (case snd st of None \<Rightarrow> True | Some m \<Rightarrow> distance < m)
      then (Some info, Some distance) else st)"

definition enhance_step ::
  "pystr list \<Rightarrow> position list \<times> date_info list \<Rightarrow> position
     \<Rightarrow> position list \<times> date_info list" where
  "enhance_step lines st p =
     (let enhanced = fst st; date_lines = snd st in
      if start_date p \<noteq> [] \<and> end_date p \<noteq> [] then (enhanced @ [p], date_lines)
      else
        (case position_line_of lines p of
           None \<Rightarrow> (enhanced @ [p], date_lines)
         | Some position_line \<Rightarrow>
             (case fst (foldl (closest_step position_line) (None, None) date_lines) of
                None \<Rightarrow> (enhanced @ [p], date_lines)
              | Some closest_date \<Rightarrow>
                  (enhanced @
                     [p\<lparr>dates := date_range closest_date,
                        start_date := parse_start_date (date_range closest_date),
                        end_date := parse_end_date (date_range closest_date)\<rparr>],
                   remove1 closest_date date_lines))))"

definition enhance_positions_with_dates :: "position list \<Rightarrow> pystr \<Rightarrow> position list" where
  "enhance_positions_with_dates ps text =
     (let lines = split_lines text in
      fst (foldl (enhance_step lines) ([], find_date_lines lines) ps))"

section \<open>Skills\<close>

definition skills_database :: "(pystr \<times> pystr list) list" where
  "skills_database =
     [(str ''Programming Languages'',
       [str ''Python'', str ''Java'', str ''JavaScript'', str ''TypeScript'', str ''C++'',
        str ''C#'', str ''Go'', str ''Rust'', str ''Ruby'', str ''PHP'', str ''Swift'',
        str ''Kotlin'', str ''Scala'', str ''R'', str ''MATLAB'', str ''SQL'', str ''HTML'',
        str ''CSS'', str ''Shell'', str ''Bash'', str ''PowerShell'', str ''Perl'',
        str ''VB.NET'', str ''Dart'', str ''Elixir'', str ''Clojure'', str ''F#'',
        str ''Haskell'']),
      (str ''Cloud & DevOps'',
       [str ''AWS'', str ''Azure'', str ''GCP'', str ''Google Cloud'', str ''Docker'',
        str ''Kubernetes'', str ''Jenkins'', str ''Git'', str ''GitLab'', str ''GitHub'',
        str ''CI/CD'', str ''Terraform'', str ''Ansible'', str ''Chef'', str ''Puppet'',
        str ''Vagrant'', str ''Helm'', str ''Azure DevOps'', str ''TFS'', str ''Mesos'',
        str ''Subversion'', str ''SVN'', str ''Cloudflare'', str ''Key Cloak'']),
      (str ''Databases'',
       [str ''MySQL'', str ''PostgreSQL'', str ''MongoDB'', str ''Redis'', str ''SQLite'',
        str ''Oracle'', str ''SQL Server'', str ''Cassandra'', str ''DynamoDB'',
        str ''Elasticsearch'', str ''Neo4j'', str ''InfluxDB'', str ''Oracle Cloud'']),
      (str ''Frameworks & Libraries'',
       [str ''React'', str ''Angular'', str ''Vue.js'', str ''Django'', str ''Flask'',
        str ''FastAPI'', str ''Spring'', str ''Express.js'', str ''Node.js'', str ''.NET'',
        str ''Laravel'', str ''Rails'', str ''jQuery'', str ''Bootstrap'', str ''TensorFlow'',
        str ''PyTorch'', str ''Keras'', str ''NumPy'', str ''Pandas'', str ''Scikit-learn'',
        str ''OpenCV'', str ''Responsive Web'']),
      (str ''Enterprise Software'',
       [str ''SAP'', str ''S/4 HANA'', str ''Salesforce'', str ''Microsoft Dynamics'',
        str ''ServiceNow'', str ''EPIC'', str ''Sitecore'', str ''Backbase'', str ''Clarity'',
        str ''TIBCO'', str ''Pega DSM'', str ''Comburent'', str ''Office 365'',
        str ''Microsoft Office Suite'', str ''Visio'', str ''Adobe Workfront'',
        str ''Hyperion'', str ''Jira'', str ''Coupa'', str ''Blockchain'',
        str ''Digital Assets'']),
      (str ''Data & Analytics'',
       [str ''ETL'', str ''Big Data'', str ''Hadoop'', str ''Spark'', str ''Kafka'',
        str ''Data Mining'', str ''Machine Learning'', str ''AI'', str ''Deep Learning'',
        str ''Data Visualization'', str ''Tableau'', str ''Power BI'', str ''Analytics'']),
      (str ''Mobile & Web'',
       [str ''Mobile Apps'', str ''iOS'', str ''Android'', str ''React Native'',
        str ''Flutter'', str ''Xamarin'', str ''Responsive Design'',
        str ''Progressive Web Apps'', str ''PWA'', str ''Mobile Development'']),
      (str ''Security & Identity'',
       [str ''IAM'', str ''Identity Access Management'', str ''SSO'', str ''Single Sign-On'',
        str ''MFA'', str ''Multi-Factor Authentication'', str ''SAML'', str ''OAuth'',
        str ''LDAP'', str ''Active Directory'', str ''IBM Identity Security Access Manager'',
        str ''Shape Security'', str ''BioCatch'', str ''Cybersecurity'',
        str ''Information Security'']),
      (str ''Project Management'',
       [str ''Agile'', str ''Scrum'', str ''Kanban'', str ''SAFe'', str ''Waterfall'',
        str ''PMP'', str ''PMI'', str ''Project Management'', str ''Program Management'',
        str ''Portfolio Management'', str ''PRINCE2'', str ''Lean'', str ''Six Sigma''])]"

subsection \<open>Skills sections\<close>

definition header_re :: "pystr list \<Rightarrow> regex \<Rightarrow> regex" where
  \<comment> \<open>\<open>(?i)^(h1|h2|...)\<close> followed by \<open>ending\<close> and \<open>\s*$\<close>\<close>
  "header_re headers ending = seqs [Bol, Grp 1 (alts (map lit_i headers)), ending, star spc, Eol]"

definition skills_headers :: "regex list" where
  "skills_headers =
     [header_re [str ''Technical Skillset'', str ''Technical Skills'', str ''Skills'',
                 str ''Core Competencies'', str ''Technologies'', str ''Tools'',
                 str ''Platforms''] (opt (lit_i (str ''s''))),
      header_re [str ''Relevant Skills'', str ''Key Skills'', str ''Professional Skills'',
                 str ''Technical Expertise''] Eps,
      header_re [str ''Programming Languages'', str ''Software'', str ''Systems'',
                 str ''Applications''] Eps]"

definition major_section_re :: regex where
  \<comment> \<open>\<open>(?i)^(Experience|Education|Projects|Certifications|References|Contact|Summary)\s*$\<close>\<close>
  "major_section_re =
     header_re [str ''Experience'', str ''Education'', str ''Projects'', str ''Certifications'',
                str ''References'', str ''Contact'', str ''Summary''] Eps"

definition is_skills_header :: "pystr \<Rightarrow> bool" where
  "is_skills_header line = list_ex (\<lambda>pattern. re_match pattern line \<noteq> None) skills_headers"

definition ends_skills_section :: "pystr \<Rightarrow> bool" where
  "ends_skills_section next_line =
     (re_match major_section_re next_line \<noteq> None \<or> is_skills_header next_line)"

fun skills_sections_from :: "pystr list \<Rightarrow> pystr list" where
  "skills_sections_from [] = []"
| "skills_sections_from (l # rest) =
     (if is_skills_header (py_strip l) then
        (let section_content =
               filter (\<lambda>next_line. next_line \<noteq> [])
                 (takeWhile (\<lambda>next_line. \<not> ends_skills_section next_line) (map py_strip rest))
         in if section_content \<noteq> [] then [py_join [10] section_content] else [])
      else [])
     @ skills_sections_from rest"

definition find_skills_sections :: "pystr \<Rightarrow> pystr list" where
  "find_skills_sections text = skills_sections_from (split_lines text)"

definition section_skill :: "real \<Rightarrow> pystr \<Rightarrow> skill" where
  "section_skill c s =
     \<lparr>name = s, category = None, source = str ''skills_section'', confidence = c\<rparr>"

definition is_skill_item :: "pystr \<Rightarrow> bool" where
  \<comment> \<open>\<open>skill and len(skill) > 1\<close>\<close>
  "is_skill_item s = (s \<noteq> [] \<and> length s > 1)"

definition bullet_prefix_re :: regex where
  \<comment> \<open>\<open>^[-*]\s*\<close> with the bullet character as a third choice\<close>
  "bullet_prefix_re = seqs [Bol, one_of [45, 8226, 42], star spc]"

definition strip_bullet :: "pystr \<Rightarrow> pystr" where
  \<comment> \<open>\<open>re.sub\<close> of the prefix by the empty string: the pattern matches at the start only\<close>
  "strip_bullet line =
     (case rx_here bullet_prefix_re 0 None line of None \<Rightarrow> line | Some m \<Rightarrow> ms_rest m)"

definition parse_skills_from_section :: "pystr \<Rightarrow> skill list" where
  "parse_skills_from_section section_text =
     (if contains (str ''|'') section_text then
        concat (map (\<lambda>line. if contains (str ''|'') line
                             then map (section_skill 0.95)
                                    (filter is_skill_item
                                       (map py_strip (py_split (str ''|'') line)))
                             else [])
                  (split_lines section_text))
      else if contains (str '','') section_text then
        map (section_skill 0.9)
          (filter is_skill_item
             (map py_strip (py_split (str '','') (py_replace [10] (str '','') section_text))))
      else
        map (section_skill 0.85)
          (filter is_skill_item
             (map (\<lambda>line. strip_bullet (py_strip line)) (split_lines section_text))))"

subsection \<open>Skills of the database that occur in the text\<close>

definition all_skills :: "(pystr \<times> pystr) list" where
  \<comment> \<open>the skills of the database with their categories, in the order of the database\<close>
  "all_skills =
     concat (map (\<lambda>(cat, skill_list). map (\<lambda>s. (s, cat)) skill_list) skills_database)"

definition mentioned :: "pystr \<Rightarrow> pystr \<Rightarrow> bool" where
  \<comment> \<open>the two nested tests on a skill: its upper-cased name occurs in the text, and does so
      between word boundaries (\<open>re.escape\<close> makes the name a literal)\<close>
  "mentioned text_upper s =
     (if contains (py_upper s) text_upper
      then re_search (seqs [Wordb, lit (py_upper s), Wordb]) text_upper \<noteq> None
      else False)"

definition extract_skills_from_experience :: "pystr \<Rightarrow> skill list" where
  "extract_skills_from_experience text =
     (let text_upper = py_upper text in
      map (\<lambda>(s, cat). \<lparr>name = s, category = Some cat, source = str ''experience_text'',
                        confidence = 0.8\<rparr>)
        (filter (\<lambda>(s, cat). mentioned text_upper s) all_skills))"

definition letters_and_spaces :: regex where
  \<comment> \<open>\<open>([A-Z][a-zA-Z\s]+)\<close>, ignoring case\<close>
  "letters_and_spaces = Grp 1 (seqs [ltr, plus (Chr (\<lambda>c. is_alpha c \<or> is_space c))])"

definition technical_patterns :: "regex list" where
  "technical_patterns =
     [seqs [lit_i (str ''using''), plus spc, Grp 1 (seqs [ltr, plus ltr])],
      seqs [lit_i (str ''with''), plus spc, Grp 1 (seqs [ltr, plus ltr])],
      seqs [lit_i (str ''experience''), plus spc, alts [lit_i (str ''in''), lit_i (str ''with'')],
            plus spc, letters_and_spaces],
      seqs [lit_i (str ''implemented''), plus spc, letters_and_spaces],
      seqs [lit_i (str ''developed''), plus spc,
            alts [lit_i (str ''using''), lit_i (str ''with'')], plus spc, letters_and_spaces],
      seqs [lit_i (str ''expertise''), plus spc, alts [lit_i (str ''in''), lit_i (str ''with'')],
            plus spc, letters_and_spaces]]"

definition known_skills_in :: "pystr \<Rightarrow> skill list" where
  \<comment> \<open>for every category the first of its skills that occurs in \<open>potential_skill\<close>\<close>
  "known_skills_in potential_skill =
     concat (map (\<lambda>(cat, skill_list).
                    case find (\<lambda>known_skill. contains (py_upper known_skill)
                                                (py_upper potential_skill)) skill_list of
                      None \<Rightarrow> []
                    | Some known_skill \<Rightarrow>
                        [\<lparr>name = known_skill, category = Some cat, source = str ''contextual'',
                          confidence = 0.7\<rparr>])
               skills_database)"

definition extract_contextual_skills :: "pystr \<Rightarrow> skill list" where
  "extract_contextual_skills text =
     concat (map (\<lambda>pattern. concat (map (\<lambda>m. known_skills_in (py_strip (group_str m 1)))
                                       (re_findall pattern text)))
               technical_patterns)"

subsection \<open>Metadata and the extractor\<close>

definition enhance_skill_metadata :: "skill \<Rightarrow> pystr \<Rightarrow> skill_out" where
  "enhance_skill_metadata sk text =
     (let skill_name = py_lower (name sk); text_lower = py_lower text;
          months =
            (if contains (str ''expert '' @ skill_name) text_lower
                \<or> contains (skill_name @ str '' expert'') text_lower then 72
             else if contains (str ''senior '' @ skill_name) text_lower
                \<or> contains (str ''lead '' @ skill_name) text_lower then 60
             else if contains (str ''advanced '' @ skill_name) text_lower then 48
             else if any_in [skill_name @ str '' developer'', skill_name @ str '' engineer'',
                             skill_name @ str '' architect''] text_lower then 36
             else if contains skill_name text_lower then 24
             else 12)
      in \<lparr>so_name = name sk,
          so_category = (case category sk of None \<Rightarrow> str ''Technical Skills'' | Some c \<Rightarrow> c),
          months_experience = months,
          so_confidence = confidence sk,
          so_source = source sk,
          last_used = str ''2024''\<rparr>)"

definition skill_candidates :: "pystr \<Rightarrow> skill list" where
  \<comment> \<open>the list \<open>skills\<close> after the three methods\<close>
  "skill_candidates text =
     concat (map parse_skills_from_section (find_skills_sections text))
     @ extract_skills_from_experience text
     @ extract_contextual_skills text"

definition extract_skills_improved :: "pystr \<Rightarrow> skill_out list" where
  "extract_skills_improved text =
     take 25 (map (\<lambda>sk. enhance_skill_metadata sk text)
                (deduplicate_skills (skill_candidates text)))"

section \<open>Projects\<close>

record project =
  project_name :: pystr
  project_description :: "pystr list"

definition hyphen_letter_space :: regex where
  \<comment> \<open>\<open>[A-Za-z\s-]\<close>\<close>
  "hyphen_letter_space = Chr (\<lambda>c. is_alpha c \<or> is_space c \<or> c = 45)"

definition project_title :: regex where
  \<comment> \<open>\<open>[A-Z][A-Za-z\s-]+(?:Demo Link|Live App)\<close>\<close>
  "project_title =
     seqs [upr, plus hyphen_letter_space, alts [lit (str ''Demo Link''), lit (str ''Live App'')]]"

definition projects_section_re :: regex where
  \<comment> \<open>\<open>Projects\s*\n(.*?)(?=\n[A-Z][a-z]+\s*\n|\Z)\<close> with \<open>re.DOTALL\<close>\<close>
  "projects_section_re =
     seqs [lit (str ''Projects''), star spc, lit [10], Grp 1 (lazy_star dot_all),
           Look (alts [seqs [lit [10], upr, plus lwr, star spc, lit [10]], Eot])]"

definition project_re :: regex where
  \<comment> \<open>\<open>(title)\s*\n(.*?)(?=\n title|\Z)\<close> with \<open>re.DOTALL\<close>\<close>
  "project_re =
     seqs [Grp 1 project_title, star spc, lit [10], Grp 2 (lazy_star dot_all),
           Look (alts [seqs [lit [10], project_title], Eot])]"

definition project_of_match :: "rx_match \<Rightarrow> project" where
  "project_of_match m =
     (let title = py_strip (group_str m 1); project_desc = py_strip (group_str m 2) in
      \<lparr>project_name = title,
       project_description =
         map (\<lambda>line. py_strip (drop 1 line))
           (filter (\<lambda>line. startswith line [9702]) (map py_strip (split_lines project_desc)))\<rparr>)"

definition extract_projects :: "pystr \<Rightarrow> project list" where
  "extract_projects text =
     (case re_search projects_section_re text of
        None \<Rightarrow> []
      | Some projects_match \<Rightarrow>
          map project_of_match (re_findall project_re (group_str projects_match 1)))"

section \<open>Certifications\<close>

record certification =
  cert_name :: pystr
  authority :: pystr

definition cert :: "pystr \<Rightarrow> certification" where
  "cert s = \<lparr>cert_name = s, authority = str ''Professional Certification''\<rparr>"

definition cert_keywords :: "pystr list" where
  "cert_keywords =
     [str ''PMP'', str ''Project Management Professional'', str ''CISSP'', str ''CISM'',
      str ''CISA'', str ''CRISC'', str ''CCNA'', str ''MCSE'', str ''ITIL'', str ''SAFe'',
      str ''Agilist'', str ''ScrumMaster'', str ''Scrum Master'', str ''Certified'',
      str ''Professional'', str ''Certificate'']"

definition pmp_certified_re :: regex where
  \<comment> \<open>\<open>PMP\s+Certified|Scrum\s+Master\s+Certified\<close>, ignoring case\<close>
  "pmp_certified_re =
     alts [seqs [lit_i (str ''PMP''), plus spc, lit_i (str ''Certified'')],
           seqs [lit_i (str ''Scrum''), plus spc, lit_i (str ''Master''), plus spc,
                 lit_i (str ''Certified'')]]"

definition cert_list_re :: regex where
  \<comment> \<open>\<open>Project Management Professional.*\(PMP\)|Certified.*Agilist|Certified.*ScrumMaster|SAFe.*Agilist\<close>,
      ignoring case\<close>
  "cert_list_re =
     alts [seqs [lit_i (str ''Project Management Professional''), star dot, lit_i (str ''(PMP)'')],
           seqs [lit_i (str ''Certified''), star dot, lit_i (str ''Agilist'')],
           seqs [lit_i (str ''Certified''), star dot, lit_i (str ''ScrumMaster'')],
           seqs [lit_i (str ''SAFe''), star dot, lit_i (str ''Agilist'')]]"

definition name_line_cert_re :: regex where
  \<comment> \<open>\<open>^[A-Za-z\s,]+,\s*(MBA|MS|CISSP|CISM|CISA|CRISC|PMP)\<close>, ignoring case\<close>
  "name_line_cert_re =
     seqs [Bol, plus (Chr (\<lambda>c. is_alpha c \<or> is_space c \<or> c = 44)), lit (str '',''), star spc,
           Grp 1 (alts (map lit_i [str ''MBA'', str ''MS'', str ''CISSP'', str ''CISM'',
                                   str ''CISA'', str ''CRISC'', str ''PMP'']))]"

definition any_in_lower :: "pystr list \<Rightarrow> pystr \<Rightarrow> bool" where
  \<comment> \<open>\<open>any(k.lower() in s.lower() for k in ks)\<close>\<close>
  "any_in_lower ks s = list_ex (\<lambda>k. contains (py_lower k) (py_lower s)) ks"

definition standalone_certs :: "pystr \<Rightarrow> certification list" where
  \<comment> \<open>the body of the first loop for one line\<close>
  "standalone_certs line =
     (let line_clean = py_strip line in
      if re_search pmp_certified_re line_clean \<noteq> None then
        map cert (filter (\<lambda>cert_part. cert_part \<noteq> [] \<and> any_in cert_keywords cert_part)
                    (map py_strip (py_split (str ''/'') line_clean)))
      else if re_search cert_list_re line_clean \<noteq> None then
        map cert (filter (\<lambda>cert_part. cert_part \<noteq> []
                            \<and> any_in_lower [str ''PMP'', str ''Certified'', str ''SAFe'',
                                             str ''Agilist'', str ''ScrumMaster'',
                                             str ''Scrum Master''] cert_part)
                    (map py_strip (py_split (str ''|'') line_clean)))
      else if re_search name_line_cert_re line_clean \<noteq> None then
        map cert (filter (any_in_lower [str ''CISSP'', str ''CISM'', str ''CISA'', str ''CRISC'',
                                        str ''PMP'', str ''Security+'', str ''Network+''])
                    (tl (map py_strip (py_split (str '','') line_clean))))
      else [])"

definition cert_header_re :: regex where
  \<comment> \<open>\<open>^(Certifications?|Professional Certifications?)\s*:?\s*$\<close>, ignoring case\<close>
  "cert_header_re =
     seqs [Bol,
           Grp 1 (alts [seqs [lit_i (str ''Certification''), opt (lit_i (str ''s''))],
                        seqs [lit_i (str ''Professional Certification''),
                              opt (lit_i (str ''s''))]]),
           star spc, opt (lit (str '':'')), star spc, Eol]"

definition cert_section_end_re :: regex where
  \<comment> \<open>\<open>^(Education|Experience|Skills|Awards|Accolades|Professional Experience)\<close>, ignoring case\<close>
  "cert_section_end_re =
     seqs [Bol,
           Grp 1 (alts (map lit_i [str ''Education'', str ''Experience'', str ''Skills'',
                                   str ''Awards'', str ''Accolades'',
                                   str ''Professional Experience'']))]"

definition certified_word_re :: regex where
  \<comment> \<open>\<open>(Certified|Professional)\s+\w+\<close>\<close>
  "certified_word_re =
     seqs [Grp 1 (alts [lit (str ''Certified''), lit (str ''Professional'')]), plus spc,
           plus wrd]"

definition cert_excludes :: "pystr list" where
  "cert_excludes =
     [str ''Bachelors'', str ''Masters'', str ''MBA'', str ''University'', str ''Award'',
      str ''Outstanding'']"

definition cert_section_step ::
  "pystr \<Rightarrow> bool \<times> certification list \<Rightarrow> (bool \<times> certification list) loop" where
  "cert_section_step line st =
     (let in_cert_section = fst st; certifications = snd st; line_clean = py_strip line in
      if re_match cert_header_re line_clean \<noteq> None then Continue (True, certifications)
      else if in_cert_section \<and> re_match cert_section_end_re line_clean \<noteq> None then Break st
      else if in_cert_section \<and> line_clean \<noteq> [] then
        (if any_in cert_excludes line_clean then Continue st
         else if any_in cert_keywords line_clean
                 \<or> re_search certified_word_re line_clean \<noteq> None
           then Continue (in_cert_section, certifications @ [cert line_clean])
         else Continue st)
      else Continue st)"

fun cert_section_loop ::
  "pystr list \<Rightarrow> bool \<times> certification list \<Rightarrow> bool \<times> certification list" where
  "cert_section_loop [] st = st"
| "cert_section_loop (line # rest) st =
     (case cert_section_step line st of
        Break st' \<Rightarrow> st'
      | Continue st' \<Rightarrow> cert_section_loop rest st')"

definition extract_certifications :: "pystr \<Rightarrow> certification list" where
  "extract_certifications text =
     (let lines = split_lines text in
      snd (cert_section_loop lines (False, concat (map standalone_certs lines))))"

section \<open>The whole parse\<close>

text \<open>
  \<open>parse_resume\<close> reads the clock before and after the extraction; the two readings are
  arguments of the model. Every other value of the result is computed from the text and
  the file name.
\<close>

record parse_result =
  res_contact :: contact_info
  res_education :: "education_entry list"
  res_positions :: "position list"
  res_skills :: "skill_out list"
  res_projects :: "project list"
  res_certifications :: "certification list"
  res_processing_time :: real
  res_quality_score :: real

definition parse_resume :: "real \<Rightarrow> real \<Rightarrow> pystr \<Rightarrow> pystr \<Rightarrow> parse_result" where
  "parse_resume clock_before clock_after text filename =
     (let start_time = clock_before;
          contact = extract_contact_info text filename;
          education = extract_education_improved text;
          experience = extract_experience_improved text;
          experience = enhance_positions_with_dates experience text;
          skills = extract_skills_improved text;
          projects = extract_projects text;
          certifications = extract_certifications text;
          processing_time = clock_after - start_time
      in \<lparr>res_contact = contact,
          res_education = education,
          res_positions = experience,
          res_skills = skills,
          res_projects = projects,
          res_certifications = certifications,
          res_processing_time = processing_time,
          res_quality_score = calculate_quality_score contact experience education skills\<rparr>)"
section \<open>Notions and inputs of the statements\<close>

text \<open>
  The dictionary of \<open>_deduplicate_skills\<close> after any number of steps: its keys are distinct,
  every value is one of the skills seen so far and is stored under its own upper-cased name,
  and every skill seen so far has an entry under its name whose confidence is at least its
  own.
\<close>

definition seen_ok :: "skill set \<Rightarrow> (pystr \<times> skill) list \<Rightarrow> bool" where
  "seen_ok S seen = (distinct (map fst seen)
     \<and> (\<forall>k v. map_of seen k = Some v \<longrightarrow> py_upper (name v) = k \<and> v \<in> S)
     \<and> (\<forall>s\<in>S. \<exists>v. map_of seen (py_upper (name s)) = Some v \<and> confidence s \<le> confidence v))"


text \<open>The words that mark a date range as running to the present.\<close>

definition present_words :: "pystr list" where
  "present_words = [str ''present'', str ''current'', str ''now'', str ''ongoing'']"

text \<open>The date ranges of the specification; 8211 is the en dash.\<close>

definition feb16_present :: pystr where
  "feb16_present = str ''Feb' 16 '' @ [8211] @ str '' Present''"

definition jan17_oct21 :: pystr where
  "jan17_oct21 = str ''Jan 2017 '' @ [8211] @ str '' Oct 2021''"

definition jul21_current :: pystr where
  "jul21_current = str ''July 2021 '' @ [8211] @ str '' Current''"

text \<open>A document of a header line, three lines of one position and an education header.\<close>

definition body3 :: "pystr list" where
  "body3 = [str ''Acme Corp, Austin, TX'', str ''Senior Engineer'', str ''Jan 2017 - Oct 2021'']"

definition doc_with_header :: "pystr \<Rightarrow> pystr" where
  "doc_with_header header = py_join [10] (header # body3 @ [str ''EDUCATION''])"



definition edu :: "pystr \<Rightarrow> pystr \<Rightarrow> education_entry" where
  "edu school degree = \<lparr>school_name = school, degree_name = degree,
     degree_type = classify_degree_type degree, edu_dates = [], edu_start_date = [],
     edu_end_date = [], gpa = []\<rparr>"




definition roman_text :: pystr where
  "roman_text =
     py_join [10] [str ''MBA'', str ''Education'', str ''i. Master of Arts, Studio X.'']"

section \<open>Evaluation\<close>

lemma times_numeral [simp]: "times (numeral k) r = Seq r (times (pred_numeral k) r)"
  by (simp add: numeral_eq_Suc)

lemma upto_numeral [simp]: "upto (numeral k) r = Alt (Seq r (upto (pred_numeral k) r)) Eps"
  by (simp add: numeral_eq_Suc)

lemmas chr_defs = str_def is_upper_def is_lower_def is_digit_def is_alpha_def is_space_def
  is_word_def lower_chr_def upper_chr_def

lemmas str_defs = py_lower_def py_upper_def py_strip_def py_capitalize_def py_int_def
  any_in_def endswith_def split_lines_def slice_def dict_get_def

lemmas rx_defs = plus_def opt_def between_def group_def group_str_def rx_here_def re_match_def
  re_search_def re_findall_def at_word_boundary_def

lemmas date_defs = full_month_names_def full_month_map_def abbr_month_map_def
  full_month_year_re_def abbr_month_year_re_def four_digits_re_def present_re_def
  four_digit_year_def parse_start_date_def parse_end_date_def

lemmas edu_defs = extract_education_improved_def education_candidates_def unique_education_def
  strategy1_def strategy1_step_def strategy2_def strategy2_step_def strategy3_line_def
  strategy4_def strategy4_step_def strategy5_line_def roman_school_def found_line_def
  edu_entry_def cert_keywords_upper_def school_words_def school_words_lower_def
  title_degree_re_def edu_header_re_def edu_end_re_def degree_word_re_def degree_line_re_def
  degree_in_university_test_re_def degree_in_university_re_def degree_of_def
  degree_from_test_re_def degree_from_re_def degree_sentence_test_re_def degree_sentence_re_def
  degree_in_test_re_def degree_in_re_def education_only_re_def roman_section_end_re_def
  roman_degree_test_re_def roman_degree_re_def school_year_re_def university_usa_re_def
  university_uk_re_def known_degree_def known_degree_re_def one_of_i_def
  star_def lazy_star_def spc_def dot_def dgt_def one_of_def none_of_def

section \<open>Quality score\<close>

text \<open>
  C6. The quality score of every parse result is the sum of four independent weights: 0.25
  when the formatted name of the result is not empty, 0.30 when its list of positions is not
  empty, 0.25 when its list of education entries is not empty and 0.20 when its list of
  skills is not empty. It lies between 0 and 1. The additions are read over the real numbers.
\<close>

theorem quality_score_of_parse:
  "res_quality_score (parse_resume clock_before clock_after text filename) =
       (if formatted_name (candidate_name
             (res_contact (parse_resume clock_before clock_after text filename))) \<noteq> []
        then 0.25 else 0)
     + (if res_positions (parse_resume clock_before clock_after text filename) \<noteq> []
        then 0.30 else 0)
     + (if res_education (parse_resume clock_before clock_after text filename) \<noteq> []
        then 0.25 else 0)
     + (if res_skills (parse_resume clock_before clock_after text filename) \<noteq> []
        then 0.20 else 0)
   \<and> 0 \<le> res_quality_score (parse_resume clock_before clock_after text filename)
   \<and> res_quality_score (parse_resume clock_before clock_after text filename) \<le> 1"
  by (simp add: parse_resume_def calculate_quality_score_def Let_def)

section \<open>Degree type classification\<close>

lemmas degree_defs = classify_degree_type_def doctorate_keywords_def masters_keywords_def

text \<open>
  C8. The degree type is found by keyword in the lower-cased degree name: a doctorate keyword
  gives doctorate, otherwise a masters keyword gives masters, otherwise the type is
  bachelors. The three names of the specification classify as stated.
\<close>

theorem degree_classification:
  "classify_degree_type (str ''PhD in Computer Science'') = str ''doctorate''
   \<and> classify_degree_type (str ''MBA'') = str ''masters''
   \<and> classify_degree_type (str ''BSc Computer Science'') = str ''bachelors''
   \<and> (any_in doctorate_keywords (py_lower dn) \<longrightarrow> classify_degree_type dn = str ''doctorate'')
   \<and> (\<not> any_in doctorate_keywords (py_lower dn) \<and> any_in masters_keywords (py_lower dn)
        \<longrightarrow> classify_degree_type dn = str ''masters'')
   \<and> (\<not> any_in doctorate_keywords (py_lower dn) \<and> \<not> any_in masters_keywords (py_lower dn)
        \<longrightarrow> classify_degree_type dn = str ''bachelors'')"
proof -
  have 1: "classify_degree_type (str ''PhD in Computer Science'') = str ''doctorate''"
    by (simp add: degree_defs chr_defs str_defs Let_def)
  have 2: "classify_degree_type (str ''MBA'') = str ''masters''"
    by (simp add: degree_defs chr_defs str_defs Let_def)
  have 3: "classify_degree_type (str ''BSc Computer Science'') = str ''bachelors''"
    by (simp add: degree_defs chr_defs str_defs Let_def)
  show ?thesis using 1 2 3 by (simp add: classify_degree_type_def Let_def)
qed

theorem degree_classification_witness:
  "\<not> any_in doctorate_keywords (py_lower (str ''Executive MBA in Finance''))
   \<and> any_in masters_keywords (py_lower (str ''Executive MBA in Finance''))
   \<and> classify_degree_type (str ''Executive MBA in Finance'') = str ''masters''
   \<and> any_in doctorate_keywords (py_lower (str ''Doctoral studies''))
   \<and> classify_degree_type (str ''Doctoral studies'') = str ''doctorate''
   \<and> \<not> any_in doctorate_keywords (py_lower (str ''BA History''))
   \<and> \<not> any_in masters_keywords (py_lower (str ''BA History''))
   \<and> classify_degree_type (str ''BA History'') = str ''bachelors''"
proof -
  have a: "\<not> any_in doctorate_keywords (py_lower (str ''Executive MBA in Finance''))"
    by (simp add: degree_defs chr_defs str_defs)
  have b: "any_in masters_keywords (py_lower (str ''Executive MBA in Finance''))"
    by (simp add: degree_defs chr_defs str_defs)
  have c: "any_in doctorate_keywords (py_lower (str ''Doctoral studies''))"
    by (simp add: degree_defs chr_defs str_defs)
  have d: "\<not> any_in doctorate_keywords (py_lower (str ''BA History''))"
    by (simp add: degree_defs chr_defs str_defs)
  have e: "\<not> any_in masters_keywords (py_lower (str ''BA History''))"
    by (simp add: degree_defs chr_defs str_defs)
  show ?thesis
    using a b c d e
      degree_classification [of "str ''Executive MBA in Finance''"]
      degree_classification [of "str ''Doctoral studies''"]
      degree_classification [of "str ''BA History''"]
    by simp
qed

section \<open>Deduplication of skills\<close>

lemma seen_ok_step:
  assumes "seen_ok S seen"
  shows "seen_ok (insert sk S) (dedup_step seen sk)"
proof -
  let ?k = "py_upper (name sk)"
  from assms have d: "distinct (map fst seen)"
    and m: "\<And>k v. map_of seen k = Some v \<Longrightarrow> py_upper (name v) = k \<and> v \<in> S"
    and c: "\<And>s. s \<in> S \<Longrightarrow>
          \<exists>v. map_of seen (py_upper (name s)) = Some v \<and> confidence s \<le> confidence v"
    by (auto simp: seen_ok_def)
  show ?thesis
  proof (cases "map_of seen ?k")
    case None
    then have e: "dedup_step seen sk = AList.update ?k sk seen"
      by (simp add: dedup_step_def)
    have "\<And>s. s \<in> S \<Longrightarrow> py_upper (name s) \<noteq> ?k"
      using c None by fastforce
    then show ?thesis
      unfolding e seen_ok_def using d m c
      by (auto simp: distinct_update update_conv')
  next
    case (Some old)
    show ?thesis
    proof (cases "confidence sk > confidence old")
      case True
      then have e: "dedup_step seen sk = AList.update ?k sk seen"
        using Some by (simp add: dedup_step_def)
      have "\<And>s. s \<in> S \<Longrightarrow> py_upper (name s) = ?k \<Longrightarrow> confidence s \<le> confidence sk"
      proof -
        fix s assume "s \<in> S" "py_upper (name s) = ?k"
        with c[of s] Some have "confidence s \<le> confidence old" by auto
        with True show "confidence s \<le> confidence sk" by simp
      qed
      then show ?thesis
        unfolding e seen_ok_def using d m c
        by (auto simp: distinct_update update_conv')
    next
      case False
      then have e: "dedup_step seen sk = seen"
        using Some by (simp add: dedup_step_def)
      show ?thesis
        unfolding e seen_ok_def using d m c Some False
        by auto
    qed
  qed
qed

lemma seen_ok_foldl:
  "seen_ok S seen \<Longrightarrow> seen_ok (S \<union> set sks) (foldl dedup_step seen sks)"
proof (induction sks arbitrary: S seen)
  case Nil
  then show ?case by simp
next
  case (Cons sk sks)
  from Cons.IH[OF seen_ok_step[OF Cons.prems, of sk]]
  show ?case by simp
qed

lemma seen_ok_result: "seen_ok (set sks) (foldl dedup_step [] sks)"
proof -
  have "seen_ok {} []" by (simp add: seen_ok_def)
  from seen_ok_foldl[OF this, of sks] show ?thesis by simp
qed




lemma dedup_covers:
  assumes "s \<in> set sks"
  shows "\<exists>v\<in>set (deduplicate_skills sks). py_upper (name v) = py_upper (name s)"
proof -
  let ?seen = "foldl dedup_step [] sks"
  have ok: "seen_ok (set sks) ?seen" by (rule seen_ok_result)
  from ok assms obtain w where w: "map_of ?seen (py_upper (name s)) = Some w"
    by (auto simp: seen_ok_def)
  then have "(py_upper (name s), w) \<in> set ?seen" by (rule map_of_SomeD)
  moreover from ok w have "py_upper (name w) = py_upper (name s)" by (simp add: seen_ok_def)
  ultimately show ?thesis by (force simp: deduplicate_skills_def)
qed







text \<open>
  The skills that the text mentions, category by category: the form in which the search is
  evaluated on a given text.
\<close>

lemma experience_skills_by_category:
  "extract_skills_from_experience text =
     concat (map (\<lambda>(cat, skill_list).
                    map (\<lambda>s. \<lparr>name = s, category = Some cat, source = str ''experience_text'',
                                confidence = 0.8\<rparr>)
                      (filter (mentioned (py_upper text)) skill_list))
               skills_database)"
proof -
  have "map (\<lambda>(s, cat). \<lparr>name = s, category = Some cat, source = str ''experience_text'',
                        confidence = 0.8\<rparr>)
          (filter (\<lambda>(s, cat). mentioned u s)
             (concat (map (\<lambda>(cat, skill_list). map (\<lambda>s. (s, cat)) skill_list) db)))
        = concat (map (\<lambda>(cat, skill_list).
                    map (\<lambda>s. \<lparr>name = s, category = Some cat, source = str ''experience_text'',
                                confidence = 0.8\<rparr>)
                      (filter (mentioned u) skill_list)) db)" for u db
    by (induction db) (auto simp: filter_map comp_def)
  then show ?thesis
    by (simp add: extract_skills_from_experience_def all_skills_def Let_def)
qed











section \<open>Deduplication of education entries\<close>

lemma uef_sound:
  "e \<in> set (unique_education_from seen es) \<Longrightarrow>
     degree_name e \<notin> seen \<and> degree_name e \<noteq> [] \<and> e \<in> set es"
proof (induction es arbitrary: seen)
  case Nil
  then show ?case by simp
next
  case (Cons a es)
  show ?case
  proof (cases "degree_name a \<noteq> [] \<and> degree_name a \<notin> seen")
    case True
    with Cons.prems
    have "e = a \<or> e \<in> set (unique_education_from (insert (degree_name a) seen) es)"
      by simp
    then show ?thesis
    proof
      assume "e = a" with True show ?thesis by simp
    next
      assume "e \<in> set (unique_education_from (insert (degree_name a) seen) es)"
      from Cons.IH[OF this] show ?thesis by simp
    qed
  next
    case False
    with Cons.prems have "e \<in> set (unique_education_from seen es)" by auto
    from Cons.IH[OF this] show ?thesis by simp
  qed
qed





lemma uef_names:
  "degree_name ` set (unique_education_from seen es) = degree_name ` set es - seen - {[]}"
proof (induction es arbitrary: seen)
  case Nil
  then show ?case by simp
next
  case (Cons a es)
  show ?case
  proof (cases "degree_name a \<noteq> [] \<and> degree_name a \<notin> seen")
    case True
    then show ?thesis using Cons.IH[of "insert (degree_name a) seen"] by auto
  next
    case False
    then show ?thesis using Cons.IH[of seen] by auto
  qed
qed

section \<open>The candidates of the education strategies\<close>
















lemma roman_candidates:
  "education_candidates roman_text
     = [edu [] (str ''MBA''), edu (str ''Studio X.'') (str ''Ma ster of Arts''), edu [] []]"
  by (simp add: roman_text_def edu_def edu_defs degree_defs chr_defs str_defs rx_defs Let_def)





text \<open>
  C10. Every education entry that is returned has a non-empty degree name: the last pass
  drops a candidate whose degree name is the empty string. The returned entries are
  candidates, and every non-empty degree name of a candidate is the degree name of a returned
  entry. The school name of a returned entry may be empty.
\<close>

theorem returned_degree_names_nonempty:
  "(\<forall>e\<in>set (extract_education_improved text). degree_name e \<noteq> [])
   \<and> set (extract_education_improved text) \<subseteq> set (education_candidates text)
   \<and> degree_name ` set (extract_education_improved text)
       = degree_name ` set (education_candidates text) - {[]}"
proof -
  have 1: "\<forall>e\<in>set (extract_education_improved text). degree_name e \<noteq> []"
    using uef_sound[of _ "{}" "education_candidates text"]
    by (auto simp: extract_education_improved_def unique_education_def)
  have 2: "set (extract_education_improved text) \<subseteq> set (education_candidates text)"
    using uef_sound[of _ "{}" "education_candidates text"]
    by (auto simp: extract_education_improved_def unique_education_def)
  have 3: "degree_name ` set (extract_education_improved text)
       = degree_name ` set (education_candidates text) - {[]}"
    using uef_names[of "{}" "education_candidates text"]
    by (simp add: extract_education_improved_def unique_education_def)
  from 1 2 3 show ?thesis by blast
qed

theorem returned_degree_names_nonempty_witness:
  "education_candidates roman_text
     = [edu [] (str ''MBA''), edu (str ''Studio X.'') (str ''Ma ster of Arts''), edu [] []]
   \<and> extract_education_improved roman_text
     = [edu [] (str ''MBA''), edu (str ''Studio X.'') (str ''Ma ster of Arts'')]
   \<and> degree_name (edu [] (str ''MBA'')) \<noteq> []
   \<and> degree_name (edu (str ''Studio X.'') (str ''Ma ster of Arts'')) \<noteq> []
   \<and> school_name (edu [] (str ''MBA'')) = []
   \<and> degree_name (edu [] []) = []"
proof -
  have r: "extract_education_improved roman_text
     = [edu [] (str ''MBA''), edu (str ''Studio X.'') (str ''Ma ster of Arts'')]"
    by (simp add: extract_education_improved_def roman_candidates unique_education_def edu_def
          str_def)
  from returned_degree_names_nonempty [of roman_text] r roman_candidates
  show ?thesis by (simp add: edu_def)
qed

section \<open>The regular expression for the present\<close>

lemma rall_lit_i:
  "startswith (py_lower (ms_rest s)) (py_lower w) \<Longrightarrow> rall (lit_i w) s \<noteq> []"
proof (induction w arbitrary: s)
  case Nil
  then show ?case by simp
next
  case (Cons c cs)
  obtain p prev rest caps where s: "s = MState p prev rest caps" by (cases s)
  from Cons.prems s obtain x xs where r: "rest = x # xs" "lower_chr x = lower_chr c"
    "startswith (py_lower xs) (py_lower cs)"
    by (cases rest) (auto simp: py_lower_def)
  from Cons.IH[of "MState (Suc p) (Some x) xs caps"] r(3)
  have "rall (lit_i cs) (MState (Suc p) (Some x) xs caps) \<noteq> []" by simp
  with s r show ?case by simp
qed

lemma rall_alts:
  "r \<in> set rs \<Longrightarrow> rall r s \<noteq> [] \<Longrightarrow> rall (alts rs) s \<noteq> []"
  by (induction rs rule: alts.induct) auto

lemma rx_here_ok: "rall r (MState p prev rest []) \<noteq> [] \<Longrightarrow> rx_here r p prev rest \<noteq> None"
  by (auto simp: rx_here_def split: list.splits)

lemma rx_scan_contains:
  assumes "\<And>p prev rest'. startswith (py_lower rest') w \<Longrightarrow> rx_here r p prev rest' \<noteq> None"
  shows "contains w (py_lower rest) \<Longrightarrow> rx_scan r p prev rest \<noteq> None"
proof (induction rest arbitrary: p prev)
  case Nil
  then have "startswith (py_lower []) w" by (simp add: py_lower_def)
  from assms[OF this] show ?case by simp
next
  case (Cons c cs)
  show ?case
  proof (cases "startswith (py_lower (c # cs)) w")
    case True
    from assms[OF this, of p prev] show ?thesis by auto
  next
    case False
    with Cons.prems have "contains w (py_lower cs)" by (simp add: py_lower_def)
    from Cons.IH[OF this] show ?thesis by (simp split: option.splits)
  qed
qed

lemma present_found:
  assumes "w \<in> set present_words" "contains w (py_lower s)"
  shows "re_search present_re s \<noteq> None"
proof -
  have lw: "py_lower w = w"
    using assms(1) by (auto simp: present_words_def chr_defs py_lower_def)
  have "rx_here present_re p prev rest' \<noteq> None"
    if "startswith (py_lower rest') w" for p prev rest'
  proof -
    from that lw have "rall (lit_i w) (MState p prev rest' []) \<noteq> []"
      using rall_lit_i[of "MState p prev rest' []" w] by simp
    moreover have "lit_i w \<in> set (map lit_i present_words)"
      using assms(1) by (simp only: set_map image_eqI)
    ultimately have "rall (alts (map lit_i present_words)) (MState p prev rest' []) \<noteq> []"
      by (rule rall_alts[rotated])
    then have "rall present_re (MState p prev rest' []) \<noteq> []"
      by (simp add: present_re_def present_words_def)
    then show ?thesis by (rule rx_here_ok)
  qed
  from rx_scan_contains[of w present_re, OF this assms(2)]
  show ?thesis by (simp add: re_search_def)
qed

lemma end_date_present:
  assumes "w \<in> set present_words" "contains w (py_lower s)"
  shows "parse_end_date s = str ''Present''"
proof -
  from assms have "s \<noteq> []" by (auto simp: py_lower_def present_words_def str_def)
  with present_found[OF assms] show ?thesis by (simp add: parse_end_date_def)
qed

section \<open>Date normalisation\<close>

text \<open>
  C3. The date ranges of the specification: \<open>Feb' 16 - Present\<close> (with an en dash) starts
  on 2016-02-01 and ends with the sentinel \<open>Present\<close>; \<open>Jan 2017 - Oct 2021\<close> starts on
  2017-01-01 and ends on 2021-10-01. Every date string that contains one of the words
  present, current, now, ongoing in any case ends with the sentinel \<open>Present\<close>.
\<close>

theorem date_round_trip:
  "parse_start_date feb16_present = str ''2016-02-01''
   \<and> parse_end_date feb16_present = str ''Present''
   \<and> parse_start_date jan17_oct21 = str ''2017-01-01''
   \<and> parse_end_date jan17_oct21 = str ''2021-10-01''
   \<and> (w \<in> set present_words \<and> contains w (py_lower s) \<longrightarrow> parse_end_date s = str ''Present'')"
proof -
  have 1: "parse_start_date feb16_present = str ''2016-02-01''"
    by (simp add: feb16_present_def date_defs rx_defs str_defs chr_defs Let_def)
  have 2: "parse_end_date feb16_present = str ''Present''"
    by (simp add: feb16_present_def date_defs rx_defs str_defs chr_defs Let_def)
  have 3: "parse_start_date jan17_oct21 = str ''2017-01-01''"
    by (simp add: jan17_oct21_def date_defs rx_defs str_defs chr_defs Let_def)
  have 4: "parse_end_date jan17_oct21 = str ''2021-10-01''"
    by (simp add: jan17_oct21_def date_defs rx_defs str_defs chr_defs Let_def)
  from 1 2 3 4 show ?thesis using end_date_present by blast
qed

theorem date_round_trip_witness:
  "str ''current'' \<in> set present_words
   \<and> contains (str ''current'') (py_lower jul21_current)
   \<and> parse_end_date jul21_current = str ''Present''"
proof -
  have a: "str ''current'' \<in> set present_words" by (simp add: present_words_def)
  have b: "contains (str ''current'') (py_lower jul21_current)"
    by (simp add: jul21_current_def str_defs chr_defs)
  from a b date_round_trip [of "str ''current''" jul21_current] show ?thesis by simp
qed

text \<open>
  C4. A 2-digit year of at most 30 is a year of the 2000s and a larger one a year of the
  1900s, in the start date and in the end date: for every two digits after the month, and in
  particular 08 gives 2008, 95 gives 1995, 30 gives 2030 and 31 gives 1931.
\<close>

theorem two_digit_year_boundary:
  "(is_digit d1 \<and> is_digit d2 \<longrightarrow>
      parse_start_date (str ''Jul' '' @ [d1, d2]) =
        (if py_int [d1, d2] \<le> 30 then str ''20'' else str ''19'') @ [d1, d2] @ str ''-07-01''
    \<and> parse_end_date (str ''Jan' 05 - Jul' '' @ [d1, d2]) =
        (if py_int [d1, d2] \<le> 30 then str ''20'' else str ''19'') @ [d1, d2] @ str ''-07-01'')
   \<and> parse_start_date (str ''Jul' 08'') = str ''2008-07-01''
   \<and> parse_start_date (str ''Jul' 95'') = str ''1995-07-01''
   \<and> parse_end_date (str ''Jan' 05 - Jul' 08'') = str ''2008-07-01''
   \<and> parse_end_date (str ''Jan' 90 - Jul' 95'') = str ''1995-07-01''
   \<and> parse_start_date (str ''Jul' 30'') = str ''2030-07-01''
   \<and> parse_start_date (str ''Jul' 31'') = str ''1931-07-01''"
proof -
  have s: "parse_start_date (str ''Jul' '' @ [d1, d2]) =
        (if py_int [d1, d2] \<le> 30 then str ''20'' else str ''19'') @ [d1, d2] @ str ''-07-01''"
    if "48 \<le> d1" "d1 \<le> 57" "48 \<le> d2" "d2 \<le> 57" for d1 d2
    using that by (simp add: date_defs rx_defs str_defs chr_defs Let_def)
  have e: "parse_end_date (str ''Jan' 05 - Jul' '' @ [d1, d2]) =
        (if py_int [d1, d2] \<le> 30 then str ''20'' else str ''19'') @ [d1, d2] @ str ''-07-01''"
    if "48 \<le> d1" "d1 \<le> 57" "48 \<le> d2" "d2 \<le> 57" for d1 d2
    using that by (simp add: date_defs rx_defs str_defs chr_defs Let_def)
  have 1: "parse_start_date (str ''Jul' 08'') = str ''2008-07-01''"
    using s[of 48 56] by (simp add: str_defs chr_defs)
  have 2: "parse_start_date (str ''Jul' 95'') = str ''1995-07-01''"
    using s[of 57 53] by (simp add: str_defs chr_defs)
  have 3: "parse_end_date (str ''Jan' 05 - Jul' 08'') = str ''2008-07-01''"
    using e[of 48 56] by (simp add: str_defs chr_defs)
  have 4: "parse_end_date (str ''Jan' 90 - Jul' 95'') = str ''1995-07-01''"
    by (simp add: date_defs rx_defs str_defs chr_defs Let_def)
  have 5: "parse_start_date (str ''Jul' 30'') = str ''2030-07-01''"
    using s[of 51 48] by (simp add: str_defs chr_defs)
  have 6: "parse_start_date (str ''Jul' 31'') = str ''1931-07-01''"
    using s[of 51 49] by (simp add: str_defs chr_defs)
  from s e 1 2 3 4 5 6 show ?thesis by (simp add: is_digit_def)
qed

theorem two_digit_year_boundary_witness:
  "is_digit 49 \<and> is_digit 55
   \<and> parse_start_date (str ''Jul' 17'') = str ''2017-07-01''
   \<and> parse_end_date (str ''Jan' 05 - Jul' 17'') = str ''2017-07-01''"
  using two_digit_year_boundary [of 49 55] by (simp add: str_defs chr_defs)

section \<open>The experience section\<close>

lemmas section_defs = experience_headers_def end_headers_def first_line_indicators_def
  summary_indicators_def is_header_def locate_step_def experience_section_def
  body3_def doc_with_header_def

text \<open>
  C7. After the header \<open>PROFESSIONAL EXPERIENCE\<close> the section is the three lines up to the
  education header. After the bare header \<open>EXPERIENCE\<close> the loop is left as soon as the
  start is set, the end is never looked for, and the section runs to the end of the
  document: it holds the education header as a fourth line.
\<close>

theorem bare_experience_header_runs_to_end:
  "experience_section (doc_with_header (str ''EXPERIENCE'')) = Some (body3 @ [str ''EDUCATION''])
   \<and> experience_section (doc_with_header (str ''PROFESSIONAL EXPERIENCE'')) = Some body3"
proof -
  have 1: "experience_section (doc_with_header (str ''EXPERIENCE''))
      = Some (body3 @ [str ''EDUCATION''])"
    by (simp add: section_defs str_defs chr_defs Let_def)
  have 2: "experience_section (doc_with_header (str ''PROFESSIONAL EXPERIENCE'')) = Some body3"
    by (simp add: section_defs str_defs chr_defs Let_def)
  from 1 2 show ?thesis by simp
qed

section \<open>The empty input\<close>

lemma contact_empty:
  "extract_contact_info [] [] =
     \<lparr>candidate_name = \<lparr>formatted_name = [], given_name = [], family_name = []\<rparr>,
      email_addresses = [], telephones = [],
      contact_location = \<lparr>municipality = [], region = [], country_code = str ''US''\<rparr>\<rparr>"
  by (simp add: extract_contact_info_def Let_def chr_defs str_defs rx_defs email_re_def
        phone_patterns_def phone_prefixed_def phone_sep_def phone_sep_paren_def location_re_def
        is_name_line_def star_def spc_def dgt_def upr_def lwr_def ltr_def)

lemma education_empty: "extract_education_improved [] = []"
  by (simp add: extract_education_improved_def education_candidates_def unique_education_def
        strategy1_def strategy2_def strategy2_step_def strategy3_line_def strategy4_def
        strategy4_step_def strategy5_line_def Let_def chr_defs str_defs rx_defs
        edu_header_re_def education_only_re_def university_usa_re_def university_uk_re_def
        star_def spc_def dot_def)

lemma experience_empty: "extract_experience_improved [] = []"
  by (simp add: extract_experience_improved_def experience_section_def locate_step_def Let_def
        chr_defs str_defs)

lemma enhance_empty: "enhance_positions_with_dates [] text = []"
  by (simp add: enhance_positions_with_dates_def Let_def)

lemma skills_sections_empty: "find_skills_sections [] = []"
  by (simp add: find_skills_sections_def is_skills_header_def skills_headers_def header_re_def
        Let_def chr_defs str_defs rx_defs star_def spc_def)

lemma empty_str_iff: "([] = str s) = (s = [])"
  by (auto simp: str_def)

lemma db_nonempty: "\<forall>p\<in>set skills_database. [] \<notin> set (snd p)"
  unfolding skills_database_def
  by (simp only: list.set ball_simps Set.ball_empty snd_conv insert_iff empty_iff empty_str_iff
        list.distinct simp_thms de_Morgan_disj not_False_eq_True)

lemma upper_empty_iff: "(py_upper s = []) = (s = [])"
  by (simp add: py_upper_def)

lemma experience_skills_empty: "extract_skills_from_experience [] = []"
proof -
  have "filter (mentioned []) skill_list = []" if "[] \<notin> set skill_list" for skill_list
    using that by (auto simp: filter_empty_conv mentioned_def upper_empty_iff)
  then have "\<forall>p\<in>set skills_database. filter (mentioned []) (snd p) = []"
    using db_nonempty by blast
  then show ?thesis
    by (simp add: experience_skills_by_category py_upper_def [of "[]"] split_def)
qed

lemma contextual_skills_empty: "extract_contextual_skills [] = []"
  by (simp add: extract_contextual_skills_def technical_patterns_def letters_and_spaces_def
        chr_defs str_defs rx_defs spc_def ltr_def)

lemma skills_empty: "extract_skills_improved [] = []"
  by (simp add: extract_skills_improved_def skill_candidates_def skills_sections_empty
        experience_skills_empty contextual_skills_empty deduplicate_skills_def)

lemma projects_empty: "extract_projects [] = []"
  by (simp add: extract_projects_def projects_section_re_def chr_defs str_defs rx_defs)

lemma certifications_empty: "extract_certifications [] = []"
  by (simp add: extract_certifications_def standalone_certs_def cert_section_step_def
        pmp_certified_re_def cert_list_re_def name_line_cert_re_def cert_header_re_def
        Let_def chr_defs str_defs rx_defs star_def spc_def dot_def)

text \<open>
  C1. The parse of the empty text with the empty file name is the record whose sequences
  (email addresses, telephones, education entries, positions, skills, projects,
  certifications) are all empty, whose formatted, given and family name are the empty
  string, whose location has only the default country code, and whose quality score is 0.
  The model is a total function whose partial operations (indexing, \<open>hd\<close>, \<open>last\<close>) stand
  where the source indexes a list; on the empty input the result is reached without any of
  them, as no error is raised in the source.
\<close>

theorem empty_input_gives_empty_record:
  "parse_resume clock_before clock_after [] [] =
     \<lparr>res_contact =
        \<lparr>candidate_name = \<lparr>formatted_name = [], given_name = [], family_name = []\<rparr>,
         email_addresses = [], telephones = [],
         contact_location = \<lparr>municipality = [], region = [], country_code = str ''US''\<rparr>\<rparr>,
      res_education = [], res_positions = [], res_skills = [], res_projects = [],
      res_certifications = [], res_processing_time = clock_after - clock_before,
      res_quality_score = 0\<rparr>"
  by (simp add: parse_resume_def Let_def contact_empty education_empty experience_empty
        enhance_empty skills_empty projects_empty certifications_empty
        calculate_quality_score_def)

section \<open>Determinism\<close>


end
